theory Spec2Isabelle
  imports Main "HOL-Library.Char_ord" "HOL-Library.List_Lexorder" "HOL-Library.Multiset"
begin

section \<open>Seat reservation services of the bus booking backend\<close>

text \<open>
  This theory embeds \<^verbatim>\<open>booking/services.py\<close>: the expiry sweep, the seat-map query and
  the reservation operations (hold, release, attach contact, claim transfer, and the two
  admin finalisations), and proves properties of them.

  Conventions of the embedding.
  \<^item> The \<^verbatim>\<open>Seat\<close> table is a list of rows; a queryset is the list of rows that satisfy
    its filter, and \<^verbatim>\<open>QuerySet.update\<close> rewrites exactly those rows. Where the source reads
    the rows of a queryset that has no \<^verbatim>\<open>order_by\<close>, their order is the database's: the
    operations that do so take a parameter \<open>row_key\<close>, and the database returns the rows
    in ascending order of that key (the primary key, a physical position, or any other).
  \<^item> A timestamp is an integer number of microseconds since 1970-01-01T00:00:00 UTC;
    \<^verbatim>\<open>None\<close> is \<open>None\<close>. Every call of \<^verbatim>\<open>_now()\<close> in the source is a separate reading of
    the clock, so each function takes one parameter per reading, in the order the source
    reads them.
  \<^item> An exception that leaves a function is \<open>Inl\<close>; a returned \<^verbatim>\<open>ServiceResult\<close> is
    \<open>Inr\<close>. \<^verbatim>\<open>@transaction.atomic\<close> restores the table only when an exception leaves
    the body.
  \<^item> \<^verbatim>\<open>str.upper()\<close> is Python's Unicode case mapping; \<^verbatim>\<open>claim_hold_by_code\<close> takes it as
    the parameter \<open>upper\<close>.
  \<^item> \<^verbatim>\<open>Seat.generate_claim_code()\<close> and \<^verbatim>\<open>Seat.generate_booking_code()\<close> are random
    generators declared in the models module; the generated code is a parameter.
  \<^item> The column \<^verbatim>\<open>updated_at\<close> is only named in one \<^verbatim>\<open>update_fields\<close> list and is read
    nowhere in the services; it is not part of the row modelled here.
\<close>

subsection \<open>Data model\<close>

datatype Status = AVAILABLE | HOLD | BOOKED

type_synonym datetime = int

record Seat =
  id_seat :: int
  trip_id :: int
  code :: string
  status :: Status
  hold_token :: "string option"
  hold_until :: "datetime option"
  customer_name :: "string option"
  customer_wa :: "string option"
  claim_code :: "string option"
  booking_code :: "string option"
  booked_at :: "datetime option"

record Trip =
  id_trip :: int
  title :: string
  bus_type :: string
  route_from :: string
  route_to :: string
  depart_at :: datetime
  price :: int
  capacity_total :: int
  admin_wa :: "string option"
  is_active :: bool

text \<open>The payloads carried in \<^verbatim>\<open>ServiceResult.data\<close>, one constructor per dictionary shape.\<close>

record SeatPayload =
  p_id :: int
  p_trip_id :: int
  p_code :: string
  p_status :: Status
  p_hold_until :: "datetime option"
  p_claim_code :: "string option"
  p_booking_code :: "string option"

record TripInfo =
  t_id :: int
  t_title :: string
  t_bus_type :: string
  t_route_from :: string
  t_route_to :: string
  t_depart_at :: datetime
  t_price :: int
  t_capacity_total :: int
  t_admin_wa :: string

record SeatEntry =
  e_id :: int
  e_code :: string
  e_status :: Status
  e_hold_until :: "datetime option"

datatype Payload =
    SeatData SeatPayload
  | SeatMapData TripInfo "SeatEntry list"
  | ClaimData string "string list" "datetime option" string
  | TransferData "string list" "datetime option"
  | BookingData "string list" string
  | ConfirmData "string list"

record ServiceResult =
  ok :: bool
  message :: string
  data :: "Payload option"

definition result :: "bool \<Rightarrow> string \<Rightarrow> Payload option \<Rightarrow> ServiceResult" where
  "result b m d = \<lparr>ok = b, message = m, data = d\<rparr>"

datatype exn = MultipleObjectsReturned | OverflowError

datatype 'a lookup = DoesNotExist | Found 'a | Multiple

text \<open>\<^verbatim>\<open>Model.objects.get(...)\<close> on the rows that satisfy its filter.\<close>

fun get_row :: "'a list \<Rightarrow> 'a lookup" where
  "get_row [] = DoesNotExist"
| "get_row [r] = Found r"
| "get_row (r # r' # rs) = Multiple"

text \<open>\<^verbatim>\<open>@transaction.atomic\<close>: commit when the body returns, roll back when it raises.\<close>

definition atomic ::
  "(Seat list \<Rightarrow> (exn + 'a) \<times> Seat list) \<Rightarrow> Seat list \<Rightarrow> (exn + 'a) \<times> Seat list" where
  "atomic body db =
     (case body db of
        (Inl e, db') \<Rightarrow> (Inl e, db)
      | (Inr r, db') \<Rightarrow> (Inr r, db'))"

text \<open>\<^verbatim>\<open>QuerySet.update\<close>: rewrite the rows that satisfy the filter, leave the others.\<close>

definition qs_update :: "(Seat \<Rightarrow> bool) \<Rightarrow> (Seat \<Rightarrow> Seat) \<Rightarrow> Seat list \<Rightarrow> Seat list" where
  "qs_update q f db = map (\<lambda>s. if q s then f s else s) db"

text \<open>The lookups \<^verbatim>\<open>hold_until__lt=now\<close> and \<^verbatim>\<open>hold_until__gte=now\<close>; a NULL matches neither.\<close>

definition until_lt :: "datetime option \<Rightarrow> datetime \<Rightarrow> bool" where
  "until_lt u now = (case u of None \<Rightarrow> False | Some t \<Rightarrow> t < now)"

definition until_gte :: "datetime option \<Rightarrow> datetime \<Rightarrow> bool" where
  "until_gte u now = (case u of None \<Rightarrow> False | Some t \<Rightarrow> now \<le> t)"

text \<open>
  \<^verbatim>\<open>timedelta(minutes=m)\<close> in microseconds: Python raises \<^verbatim>\<open>OverflowError\<close> when the
  number of whole days is beyond 999999999 in magnitude.
\<close>

definition timedelta_minutes :: "int \<Rightarrow> exn + int" where
  "timedelta_minutes m =
     (if - 999999999 \<le> m div 1440 \<and> m div 1440 \<le> 999999999
      then Inr (m * 60000000) else Inl OverflowError)"

text \<open>
  \<^verbatim>\<open>datetime + timedelta\<close>: the sum must lie between \<^verbatim>\<open>datetime.min\<close> (year 1) and
  \<^verbatim>\<open>datetime.max\<close> (the last microsecond of year 9999), else \<^verbatim>\<open>OverflowError\<close>.
\<close>

definition datetime_min :: datetime where
  "datetime_min = - 62135596800000000"

definition datetime_max :: datetime where
  "datetime_max = 253402300799999999"

definition datetime_add :: "datetime \<Rightarrow> int \<Rightarrow> exn + datetime" where
  "datetime_add d delta =
     (if datetime_min \<le> d + delta \<and> d + delta \<le> datetime_max
      then Inr (d + delta) else Inl OverflowError)"

text \<open>The expression \<^verbatim>\<open>now + timedelta(minutes=hold_minutes)\<close>.\<close>

definition hold_deadline :: "datetime \<Rightarrow> int \<Rightarrow> exn + datetime" where
  "hold_deadline now hold_minutes =
     (case timedelta_minutes hold_minutes of
        Inl e \<Rightarrow> Inl e
      | Inr delta \<Rightarrow> datetime_add now delta)"

subsection \<open>Housekeeping\<close>

definition expired :: "datetime \<Rightarrow> Seat \<Rightarrow> bool" where
  "expired now s = (status s = HOLD \<and> until_lt (hold_until s) now)"

definition release_fields :: "Seat \<Rightarrow> Seat" where
  "release_fields s =
     s\<lparr>status := AVAILABLE, hold_token := None, hold_until := None,
       customer_name := None, customer_wa := None, claim_code := None\<rparr>"

definition expire_holds :: "datetime \<Rightarrow> Seat list \<Rightarrow> nat \<times> Seat list" where
  "expire_holds now db =
     (length (filter (expired now) db), qs_update (expired now) release_fields db)"

definition swept :: "datetime \<Rightarrow> Seat list \<Rightarrow> Seat list" where
  "swept now db = snd (expire_holds now db)"

subsection \<open>Strings\<close>

text \<open>
  Python strings are modelled as lists of \<^typ>\<open>char\<close>, that is, code points below 256.
  \<open>str_strip\<close> is \<^verbatim>\<open>str.strip()\<close> (the white space of that range), \<open>str_join\<close> is
  \<^verbatim>\<open>sep.join(xs)\<close> and \<open>str_int\<close> is the decimal rendering an f-string gives an integer.
  \<open>str_upper\<close> maps the ASCII letters to upper case; it agrees with \<^verbatim>\<open>str.upper()\<close> on
  ASCII text and is the case mapping used in the examples.
\<close>

definition isspace :: "char \<Rightarrow> bool" where
  "isspace c =
     (let n = (of_char c :: nat)
      in (9 \<le> n \<and> n \<le> 13) \<or> (28 \<le> n \<and> n \<le> 32) \<or> n = 133 \<or> n = 160)"

definition str_strip :: "string \<Rightarrow> string" where
  "str_strip s = rev (dropWhile isspace (rev (dropWhile isspace s)))"

definition upper_char :: "char \<Rightarrow> char" where
  "upper_char c =
     (case map_of (zip ''abcdefghijklmnopqrstuvwxyz'' ''ABCDEFGHIJKLMNOPQRSTUVWXYZ'') c of
        None \<Rightarrow> c
      | Some u \<Rightarrow> u)"

definition str_upper :: "string \<Rightarrow> string" where
  "str_upper s = map upper_char s"

fun str_join :: "string \<Rightarrow> string list \<Rightarrow> string" where
  "str_join sep [] = []"
| "str_join sep [x] = x"
| "str_join sep (x # y # ys) = x @ sep @ str_join sep (y # ys)"

definition digit_char :: "nat \<Rightarrow> char" where
  "digit_char d = ''0123456789'' ! d"

fun str_nat :: "nat \<Rightarrow> string" where
  "str_nat n = (if n < 10 then [digit_char n] else str_nat (n div 10) @ [digit_char (n mod 10)])"

declare str_nat.simps [simp del]

definition str_int :: "int \<Rightarrow> string" where
  "str_int i = (if i < 0 then CHR ''-'' # str_nat (nat (- i)) else str_nat (nat i))"

text \<open>\<^verbatim>\<open>Max("hold_until")\<close>: the largest non-NULL value, NULL when there is none.\<close>

fun max_until :: "datetime option list \<Rightarrow> datetime option" where
  "max_until [] = None"
| "max_until (None # us) = max_until us"
| "max_until (Some t # us) =
     (case max_until us of None \<Rightarrow> Some t | Some m \<Rightarrow> Some (max t m))"

subsection \<open>Queries\<close>

definition get_trip_with_seats :: "Trip list \<Rightarrow> int \<Rightarrow> exn + Trip option" where
  "get_trip_with_seats trips trip =
     (case get_row (filter (\<lambda>t. id_trip t = trip \<and> is_active t) trips) of
        DoesNotExist \<Rightarrow> Inr None
      | Found t \<Rightarrow> Inr (Some t)
      | Multiple \<Rightarrow> Inl MultipleObjectsReturned)"

definition admin_wa_or_empty :: "Trip \<Rightarrow> string" where
  "admin_wa_or_empty t = (case admin_wa t of None \<Rightarrow> [] | Some w \<Rightarrow> w)"

definition trip_info :: "Trip \<Rightarrow> TripInfo" where
  "trip_info t =
     \<lparr>t_id = id_trip t, t_title = title t, t_bus_type = bus_type t,
      t_route_from = route_from t, t_route_to = route_to t, t_depart_at = depart_at t,
      t_price = price t, t_capacity_total = capacity_total t,
      t_admin_wa = admin_wa_or_empty t\<rparr>"

definition seat_entry :: "Seat \<Rightarrow> SeatEntry" where
  "seat_entry s =
     \<lparr>e_id = id_seat s, e_code = code s, e_status = status s, e_hold_until = hold_until s\<rparr>"

text \<open>
  \<^verbatim>\<open>get_seat_map\<close> is not wrapped in a transaction: the sweep is committed whatever it
  returns. \<^verbatim>\<open>order_by("code")\<close> is ordering by code points.
\<close>

definition get_seat_map ::
  "datetime \<Rightarrow> Trip list \<Rightarrow> int \<Rightarrow> Seat list \<Rightarrow> (exn + ServiceResult) \<times> Seat list" where
  "get_seat_map t_sweep trips trip db0 =
     (let db = swept t_sweep db0
      in case get_trip_with_seats trips trip of
           Inl e \<Rightarrow> (Inl e, db)
         | Inr None \<Rightarrow> (Inr (result False ''Trip tidak ditemukan.'' None), db)
         | Inr (Some t) \<Rightarrow>
             (let seats = sort_key code (filter (\<lambda>s. trip_id s = id_trip t) db)
              in (Inr (result True ''OK''
                         (Some (SeatMapData (trip_info t) (map seat_entry seats)))), db)))"

subsection \<open>Hold logic\<close>

definition count_holds_for_token :: "datetime \<Rightarrow> int \<Rightarrow> string \<Rightarrow> Seat list \<Rightarrow> nat" where
  "count_holds_for_token now trip token db =
     length (filter (\<lambda>s. trip_id s = trip \<and> status s = HOLD \<and> hold_token s = Some token
                          \<and> until_gte (hold_until s) now) db)"

definition seat_payload :: "Seat \<Rightarrow> Payload" where
  "seat_payload seat =
     SeatData \<lparr>p_id = id_seat seat, p_trip_id = trip_id seat, p_code = code seat,
               p_status = status seat, p_hold_until = hold_until seat,
               p_claim_code = claim_code seat, p_booking_code = booking_code seat\<rparr>"

text \<open>
  \<^verbatim>\<open>seat.save()\<close> writes every column of the row with the seat's primary key;
  \<^verbatim>\<open>seat.save(update_fields=["hold_until", "updated_at"])\<close> writes that column only.
\<close>

definition save :: "Seat \<Rightarrow> Seat list \<Rightarrow> Seat list" where
  "save seat db = qs_update (\<lambda>r. id_seat r = id_seat seat) (\<lambda>r. seat) db"

definition save_hold_until :: "Seat \<Rightarrow> Seat list \<Rightarrow> Seat list" where
  "save_hold_until seat db =
     qs_update (\<lambda>r. id_seat r = id_seat seat) (\<lambda>r. r\<lparr>hold_until := hold_until seat\<rparr>) db"

definition acquire :: "string \<Rightarrow> datetime \<Rightarrow> Seat \<Rightarrow> Seat" where
  "acquire token until seat =
     seat\<lparr>status := HOLD, hold_token := Some token, hold_until := Some until,
          customer_name := None, customer_wa := None, claim_code := None,
          booked_at := None, booking_code := None\<rparr>"

definition hold_seat_body ::
  "datetime \<Rightarrow> datetime \<Rightarrow> datetime \<Rightarrow> int \<Rightarrow> string \<Rightarrow> string \<Rightarrow> int \<Rightarrow> int \<Rightarrow>
   Seat list \<Rightarrow> (exn + ServiceResult) \<times> Seat list" where
  "hold_seat_body t_sweep now t_count trip seat_code token hold_minutes max_hold_per_session db0 =
     (let db = swept t_sweep db0;
          current_holds = count_holds_for_token t_count trip token db
      in if int current_holds \<ge> max_hold_per_session
         then (Inr (result False
                      (''Maksimal hold '' @ str_int max_hold_per_session @ '' kursi.'') None), db)
         else (case get_row (filter (\<lambda>s. trip_id s = trip \<and> code s = seat_code) db) of
                 DoesNotExist \<Rightarrow> (Inr (result False ''Kursi tidak ditemukan.'' None), db)
               | Multiple \<Rightarrow> (Inl MultipleObjectsReturned, db)
               | Found seat \<Rightarrow>
                   if status seat = BOOKED
                   then (Inr (result False ''Kursi sudah terisi (BOOKED).'' None), db)
                   else if status seat = HOLD \<and> until_gte (hold_until seat) now
                   then (if hold_token seat \<noteq> Some token
                         then (Inr (result False ''Kursi sedang di-hold user lain.'' None), db)
                         else (case hold_deadline now hold_minutes of
                                 Inl e \<Rightarrow> (Inl e, db)
                               | Inr until \<Rightarrow>
                                   (let seat' = seat\<lparr>hold_until := Some until\<rparr>
                                    in (Inr (result True ''Hold diperpanjang.''
                                               (Some (seat_payload seat'))),
                                        save_hold_until seat' db))))
                   else (case hold_deadline now hold_minutes of
                           Inl e \<Rightarrow> (Inl e, db)
                         | Inr until \<Rightarrow>
                             (let seat' = acquire token until seat
                              in (Inr (result True ''Kursi berhasil di-hold.''
                                         (Some (seat_payload seat'))),
                                  save seat' db)))))"

definition hold_seat ::
  "datetime \<Rightarrow> datetime \<Rightarrow> datetime \<Rightarrow> int \<Rightarrow> string \<Rightarrow> string \<Rightarrow> int \<Rightarrow> int \<Rightarrow>
   Seat list \<Rightarrow> (exn + ServiceResult) \<times> Seat list" where
  "hold_seat t_sweep now t_count trip seat_code token hold_minutes max_hold_per_session =
     atomic (hold_seat_body t_sweep now t_count trip seat_code token hold_minutes
               max_hold_per_session)"

definition release_seat_body ::
  "datetime \<Rightarrow> datetime \<Rightarrow> int \<Rightarrow> string \<Rightarrow> string \<Rightarrow> Seat list \<Rightarrow>
   (exn + ServiceResult) \<times> Seat list" where
  "release_seat_body t_sweep now trip seat_code token db0 =
     (let db = swept t_sweep db0
      in case get_row (filter (\<lambda>s. trip_id s = trip \<and> code s = seat_code) db) of
           DoesNotExist \<Rightarrow> (Inr (result False ''Kursi tidak ditemukan.'' None), db)
         | Multiple \<Rightarrow> (Inl MultipleObjectsReturned, db)
         | Found seat \<Rightarrow>
             if status seat \<noteq> HOLD \<or> hold_until seat = None \<or> until_lt (hold_until seat) now
             then (Inr (result False ''Kursi tidak sedang di-hold aktif.'' None), db)
             else if hold_token seat \<noteq> Some token
             then (Inr (result False ''Tidak punya akses untuk melepas hold ini.'' None), db)
             else (let seat' = release_fields seat
                   in (Inr (result True ''Hold dilepas.'' (Some (seat_payload seat'))),
                       save seat' db)))"

definition release_seat ::
  "datetime \<Rightarrow> datetime \<Rightarrow> int \<Rightarrow> string \<Rightarrow> string \<Rightarrow> Seat list \<Rightarrow>
   (exn + ServiceResult) \<times> Seat list" where
  "release_seat t_sweep now trip seat_code token =
     atomic (release_seat_body t_sweep now trip seat_code token)"

subsection \<open>Contact and claim\<close>

definition active_hold_of :: "int \<Rightarrow> string \<Rightarrow> datetime \<Rightarrow> Seat \<Rightarrow> bool" where
  "active_hold_of trip token now s =
     (trip_id s = trip \<and> status s = HOLD \<and> hold_token s = Some token
      \<and> until_gte (hold_until s) now)"

definition attach_fields :: "string \<Rightarrow> string \<Rightarrow> string \<Rightarrow> Seat \<Rightarrow> Seat" where
  "attach_fields name wa generated s =
     s\<lparr>customer_name := Some (str_strip name), customer_wa := Some (str_strip wa),
       claim_code := Some generated\<rparr>"

definition attach_contact_and_generate_claim_body ::
  "datetime \<Rightarrow> datetime \<Rightarrow> string \<Rightarrow> Trip list \<Rightarrow> int \<Rightarrow> string \<Rightarrow> string \<Rightarrow> string \<Rightarrow>
   Seat list \<Rightarrow> (exn + ServiceResult) \<times> Seat list" where
  "attach_contact_and_generate_claim_body t_sweep now generated trips trip token name wa db0 =
     (let db = swept t_sweep db0
      in case get_row (filter (\<lambda>t. id_trip t = trip \<and> is_active t) trips) of
           DoesNotExist \<Rightarrow> (Inr (result False ''Trip tidak ditemukan.'' None), db)
         | Multiple \<Rightarrow> (Inl MultipleObjectsReturned, db)
         | Found t \<Rightarrow>
             (let q = active_hold_of trip token now
              in if filter q db = []
                 then (Inr (result False ''Tidak ada kursi hold aktif untuk token ini.'' None),
                       db)
                 else (let db' = qs_update q (attach_fields name wa generated) db;
                           seats = sort_key code (filter q db');
                           seat_codes = map code seats;
                           hold_until_max = max_until (map hold_until seats)
                       in (Inr (result True ''Kontak disimpan & claim code dibuat.''
                                  (Some (ClaimData generated seat_codes hold_until_max
                                           (admin_wa_or_empty t)))),
                           db'))))"

definition attach_contact_and_generate_claim ::
  "datetime \<Rightarrow> datetime \<Rightarrow> string \<Rightarrow> Trip list \<Rightarrow> int \<Rightarrow> string \<Rightarrow> string \<Rightarrow> string \<Rightarrow>
   Seat list \<Rightarrow> (exn + ServiceResult) \<times> Seat list" where
  "attach_contact_and_generate_claim t_sweep now generated trips trip token name wa =
     atomic (attach_contact_and_generate_claim_body t_sweep now generated trips trip token
               name wa)"

text \<open>
  The filter of \<^verbatim>\<open>claim_hold_by_code\<close>; \<^verbatim>\<open>if customer_wa:\<close> holds for a string that is
  neither \<^verbatim>\<open>None\<close> nor empty. \<open>upper\<close> is \<^verbatim>\<open>str.upper\<close>.
\<close>

definition claim_match ::
  "(string \<Rightarrow> string) \<Rightarrow> int \<Rightarrow> string \<Rightarrow> string option \<Rightarrow> datetime \<Rightarrow> Seat \<Rightarrow> bool" where
  "claim_match upper trip claim wa now s =
     (trip_id s = trip \<and> status s = HOLD \<and> until_gte (hold_until s) now
      \<and> claim_code s = Some (upper (str_strip claim))
      \<and> (case wa of
            None \<Rightarrow> True
          | Some w \<Rightarrow> if w \<noteq> [] then customer_wa s = Some (str_strip w) else True))"

definition claim_hold_by_code_body ::
  "(string \<Rightarrow> string) \<Rightarrow> datetime \<Rightarrow> datetime \<Rightarrow> int \<Rightarrow> string \<Rightarrow> string \<Rightarrow>
   string option \<Rightarrow> Seat list \<Rightarrow> (exn + ServiceResult) \<times> Seat list" where
  "claim_hold_by_code_body upper t_sweep now trip claim new_hold_token wa db0 =
     (let db = swept t_sweep db0;
          q = claim_match upper trip claim wa now
      in if filter q db = []
         then (Inr (result False ''Claim code tidak valid atau sudah expired.'' None), db)
         else (let db' = qs_update q (\<lambda>s. s\<lparr>hold_token := Some new_hold_token\<rparr>) db;
                   seats = sort_key code (filter q db');
                   seat_codes = map code seats;
                   hold_until_max = max_until (map hold_until seats)
               in (Inr (result True ''Hold berhasil di-claim.''
                          (Some (TransferData seat_codes hold_until_max))),
                   db')))"

definition claim_hold_by_code ::
  "(string \<Rightarrow> string) \<Rightarrow> datetime \<Rightarrow> datetime \<Rightarrow> int \<Rightarrow> string \<Rightarrow> string \<Rightarrow>
   string option \<Rightarrow> Seat list \<Rightarrow> (exn + ServiceResult) \<times> Seat list" where
  "claim_hold_by_code upper t_sweep now trip claim new_hold_token wa =
     atomic (claim_hold_by_code_body upper t_sweep now trip claim new_hold_token wa)"

subsection \<open>Admin: booking\<close>

definition requested :: "int \<Rightarrow> string list \<Rightarrow> Seat \<Rightarrow> bool" where
  "requested trip seat_codes s = (trip_id s = trip \<and> code s \<in> set seat_codes)"

text \<open>
  \<^verbatim>\<open>list(seats.filter(status=BOOKED).values_list("code", flat=True))\<close>: the queryset has no
  \<^verbatim>\<open>order_by\<close>, so the codes come in the order in which the database returns the rows,
  ascending in \<open>row_key\<close>.
\<close>

definition already_booked ::
  "(Seat \<Rightarrow> int) \<Rightarrow> int \<Rightarrow> string list \<Rightarrow> Seat list \<Rightarrow> string list" where
  "already_booked row_key trip seat_codes db =
     map code
       (sort_key row_key (filter (\<lambda>s. requested trip seat_codes s \<and> status s = BOOKED) db))"

definition admin_generate_booking_code_and_book_body ::
  "(Seat \<Rightarrow> int) \<Rightarrow> datetime \<Rightarrow> datetime \<Rightarrow> string \<Rightarrow> int \<Rightarrow> string list \<Rightarrow>
   Seat list \<Rightarrow> (exn + ServiceResult) \<times> Seat list" where
  "admin_generate_booking_code_and_book_body row_key t_sweep now generated trip seat_codes db0 =
     (let db = swept t_sweep db0;
          q = requested trip seat_codes
      in if length (filter q db) \<noteq> length seat_codes
         then (Inr (result False ''Ada kursi yang tidak ditemukan.'' None), db)
         else if already_booked row_key trip seat_codes db \<noteq> []
         then (Inr (result False
                      (''Kursi sudah BOOKED: ''
                       @ str_join '', '' (already_booked row_key trip seat_codes db))
                      None), db)
         else (Inr (result True ''BOOKED + booking code dibuat.''
                      (Some (BookingData seat_codes generated))),
               qs_update q (\<lambda>s. s\<lparr>status := BOOKED, booked_at := Some now,
                                    booking_code := Some generated,
                                    hold_token := None, hold_until := None\<rparr>) db))"

definition admin_generate_booking_code_and_book ::
  "(Seat \<Rightarrow> int) \<Rightarrow> datetime \<Rightarrow> datetime \<Rightarrow> string \<Rightarrow> int \<Rightarrow> string list \<Rightarrow>
   Seat list \<Rightarrow> (exn + ServiceResult) \<times> Seat list" where
  "admin_generate_booking_code_and_book row_key t_sweep now generated trip seat_codes =
     atomic (admin_generate_booking_code_and_book_body row_key t_sweep now generated trip
               seat_codes)"

subsection \<open>Legacy admin confirm\<close>

definition confirm_booked_by_admin_body ::
  "(Seat \<Rightarrow> int) \<Rightarrow> datetime \<Rightarrow> datetime \<Rightarrow> int \<Rightarrow> string list \<Rightarrow>
   Seat list \<Rightarrow> (exn + ServiceResult) \<times> Seat list" where
  "confirm_booked_by_admin_body row_key t_sweep now trip seat_codes db0 =
     (let db = swept t_sweep db0;
          q = requested trip seat_codes
      in if length (filter q db) \<noteq> length seat_codes
         then (Inr (result False ''Ada kursi yang tidak ditemukan.'' None), db)
         else if already_booked row_key trip seat_codes db \<noteq> []
         then (Inr (result False
                      (''Kursi sudah BOOKED: ''
                       @ str_join '', '' (already_booked row_key trip seat_codes db))
                      None), db)
         else (Inr (result True ''Kursi berhasil dikonfirmasi BOOKED.''
                      (Some (ConfirmData seat_codes))),
               qs_update q (\<lambda>s. s\<lparr>status := BOOKED, booked_at := Some now,
                                    hold_token := None, hold_until := None\<rparr>) db))"

definition confirm_booked_by_admin ::
  "(Seat \<Rightarrow> int) \<Rightarrow> datetime \<Rightarrow> datetime \<Rightarrow> int \<Rightarrow> string list \<Rightarrow>
   Seat list \<Rightarrow> (exn + ServiceResult) \<times> Seat list" where
  "confirm_booked_by_admin row_key t_sweep now trip seat_codes =
     atomic (confirm_booked_by_admin_body row_key t_sweep now trip seat_codes)"

subsection \<open>Notions used in the statements\<close>

text \<open>What the sweep at time \<open>now\<close> does to one row.\<close>

definition sweep_row :: "datetime \<Rightarrow> Seat \<Rightarrow> Seat" where
  "sweep_row now s = (if expired now s then release_fields s else s)"

text \<open>A deadline that is present and strictly after \<open>now\<close>.\<close>

definition until_gt :: "datetime option \<Rightarrow> datetime \<Rightarrow> bool" where
  "until_gt u now = (case u of None \<Rightarrow> False | Some t \<Rightarrow> now < t)"

definition stale_free_strict :: "datetime \<Rightarrow> Seat list \<Rightarrow> bool" where
  "stale_free_strict now db = list_all (\<lambda>s. status s = HOLD \<longrightarrow> until_gt (hold_until s) now) db"

text \<open>
  Rows as the tests create them: \<open>new_seat\<close> is \<^verbatim>\<open>Seat.objects.create(trip=..., code=...)\<close>,
  \<open>held_seat\<close> such a row under a hold.
\<close>

definition new_seat :: "int \<Rightarrow> int \<Rightarrow> string \<Rightarrow> Seat" where
  "new_seat i trip c =
     \<lparr>id_seat = i, trip_id = trip, code = c, status = AVAILABLE, hold_token = None,
      hold_until = None, customer_name = None, customer_wa = None, claim_code = None,
      booking_code = None, booked_at = None\<rparr>"

definition held_seat :: "int \<Rightarrow> int \<Rightarrow> string \<Rightarrow> string \<Rightarrow> datetime \<Rightarrow> Seat" where
  "held_seat i trip c token until =
     (new_seat i trip c)\<lparr>status := HOLD, hold_token := Some token, hold_until := Some until\<rparr>"

text \<open>Example tables: a stale hold beside a free seat, and a session at its quota of four.\<close>

definition db_stale :: "Seat list" where
  "db_stale = [held_seat 1 1 ''A1'' ''tokenA'' 50, new_seat 2 1 ''A2'']"

definition db_full :: "Seat list" where
  "db_full = [held_seat 1 1 ''A1'' ''tokenA'' 600, held_seat 2 1 ''A2'' ''tokenA'' 600,
              held_seat 3 1 ''A3'' ''tokenA'' 600, held_seat 4 1 ''A4'' ''tokenA'' 600]"

text \<open>Whether the text \<open>c\<close> occurs in the text \<open>m\<close>.\<close>

fun occurs_in :: "string \<Rightarrow> string \<Rightarrow> bool" where
  "occurs_in c [] = (c = [])"
| "occurs_in c (x # xs) = (take (length c) (x # xs) = c \<or> occurs_in c xs)"

text \<open>A booked seat beside a stale hold that carries contact data.\<close>

definition db_booked :: "Seat list" where
  "db_booked =
     [(new_seat 1 1 ''A1'')\<lparr>status := BOOKED, booked_at := Some 10\<rparr>,
      (held_seat 2 1 ''A2'' ''tokenA'' 50)\<lparr>customer_name := Some ''Budi'',
         customer_wa := Some ''08'', claim_code := Some ''ABCD-EFGH''\<rparr>]"

text \<open>
  A seat of trip 1 under an active hold with contact and claim code, and a stale hold of
  another session in trip 2 with its own claim code.
\<close>

definition db_claim :: "Seat list" where
  "db_claim =
     [(held_seat 1 1 ''A1'' ''tokenA'' 600)\<lparr>customer_name := Some ''Budi'',
         customer_wa := Some ''08'', claim_code := Some ''ABCD-EFGH''\<rparr>,
      (held_seat 3 2 ''B1'' ''tokenC'' 50)\<lparr>customer_name := Some ''Siti'',
         customer_wa := Some ''09'', claim_code := Some ''WXYZ-2345''\<rparr>]"

definition trip1 :: Trip where
  "trip1 =
     \<lparr>id_trip = 1, title = ''Jakarta - Bandung (Pagi)'', bus_type = ''EXEC'',
      route_from = ''Jakarta'', route_to = ''Bandung'', depart_at = 86400000000,
      price = 150000, capacity_total = 4, admin_wa = Some ''0811'', is_active = True\<rparr>"

text \<open>
  Two rows agree on what the seat map can show: identity, trip, code, status and deadline.
  Token, contact, claim code, booking code and booking time are free to differ.
\<close>

definition public_eq :: "Seat \<Rightarrow> Seat \<Rightarrow> bool" where
  "public_eq s s' =
     (id_seat s = id_seat s' \<and> trip_id s = trip_id s' \<and> code s = code s'
      \<and> status s = status s' \<and> hold_until s = hold_until s')"

text \<open>Two booked seats of trip 1 with a stale hold between them.\<close>

definition db_two_booked :: "Seat list" where
  "db_two_booked =
     [(new_seat 1 1 ''A1'')\<lparr>status := BOOKED, booked_at := Some 10\<rparr>,
      held_seat 2 1 ''A2'' ''tokenA'' 50,
      (new_seat 3 1 ''B1'')\<lparr>status := BOOKED, booked_at := Some 20\<rparr>]"

section \<open>Properties\<close>

subsection \<open>The sweep\<close>

lemma swept_map: "swept now db = map (sweep_row now) db"
  by (simp add: swept_def expire_holds_def qs_update_def sweep_row_def)

lemma sweep_row_keys [simp]:
  "trip_id (sweep_row now s) = trip_id s"
  "code (sweep_row now s) = code s"
  "id_seat (sweep_row now s) = id_seat s"
  by (simp_all add: sweep_row_def release_fields_def)

lemma sweep_row_not_expired: "\<not> expired now s \<Longrightarrow> sweep_row now s = s"
  by (simp add: sweep_row_def)

lemma sweep_row_expired_status: "expired now s \<Longrightarrow> status (sweep_row now s) = AVAILABLE"
  by (simp add: sweep_row_def release_fields_def)

lemma sweep_row_hold:
  "status (sweep_row now s) = HOLD \<longleftrightarrow> status s = HOLD \<and> \<not> until_lt (hold_until s) now"
  by (auto simp: sweep_row_def release_fields_def expired_def)

lemma sweep_row_hold_same: "status (sweep_row now s) = HOLD \<Longrightarrow> sweep_row now s = s"
  by (auto simp: sweep_row_def release_fields_def)

lemma sweep_row_booked [simp]: "status (sweep_row now s) = BOOKED \<longleftrightarrow> status s = BOOKED"
  by (auto simp: sweep_row_def release_fields_def expired_def)

text \<open>
  Claim C6, as amended. After \<^verbatim>\<open>expire_holds\<close> has run at time \<open>now\<close>, a seat with status
  HOLD has no deadline strictly before \<open>now\<close>: a deadline that is present is at \<open>now\<close> or
  later. The sweep selects \<^verbatim>\<open>hold_until__lt=now\<close>, so a hold whose deadline equals \<open>now\<close>
  survives it.
\<close>

theorem expire_holds_no_stale_hold:
  "s \<in> set (snd (expire_holds now db)) \<Longrightarrow> status s = HOLD \<Longrightarrow> hold_until s = Some t
   \<Longrightarrow> now \<le> t"
proof -
  assume mem: "s \<in> set (snd (expire_holds now db))"
    and st: "status s = HOLD" and hu: "hold_until s = Some t"
  from mem obtain r where r: "r \<in> set db" and s: "s = sweep_row now r"
    using swept_map [of now db] by (auto simp: swept_def)
  from st s have "status r = HOLD \<and> \<not> until_lt (hold_until r) now" and "s = r"
    using sweep_row_hold [of now r] sweep_row_hold_same [of now r] by simp_all
  with hu show "now \<le> t"
    by (simp add: until_lt_def)
qed

theorem expire_holds_no_stale_hold_witness:
  "held_seat 1 1 ''A1'' ''tokenA'' 100 \<in> set (snd (expire_holds 100
      [held_seat 1 1 ''A1'' ''tokenA'' 100, held_seat 2 1 ''A2'' ''tokenA'' 99]))
   \<and> status (held_seat 1 1 ''A1'' ''tokenA'' 100) = HOLD
   \<and> hold_until (held_seat 1 1 ''A1'' ''tokenA'' 100) = Some 100
   \<and> (100::int) \<le> 100"
proof -
  have mem: "held_seat 1 1 ''A1'' ''tokenA'' 100 \<in> set (snd (expire_holds 100
      [held_seat 1 1 ''A1'' ''tokenA'' 100, held_seat 2 1 ''A2'' ''tokenA'' 99]))"
    by (simp add: expire_holds_def qs_update_def expired_def until_lt_def held_seat_def
        new_seat_def)
  have st: "status (held_seat 1 1 ''A1'' ''tokenA'' 100) = HOLD"
    by (simp add: held_seat_def new_seat_def)
  have hu: "hold_until (held_seat 1 1 ''A1'' ''tokenA'' 100) = Some 100"
    by (simp add: held_seat_def new_seat_def)
  from expire_holds_no_stale_hold [OF mem st hu] mem st hu show ?thesis
    by simp
qed

text \<open>
  Claim C6 as stated fails: swept at time 100, a hold whose deadline is 100 is still a
  hold, and 100 is not strictly after 100. A row with status HOLD and no deadline, which
  the nullable column admits, is not selected by the sweep either.
\<close>

theorem expire_holds_strict_counterexample:
  "snd (expire_holds 100 [held_seat 1 1 ''A1'' ''tokenA'' 100]) =
     [held_seat 1 1 ''A1'' ''tokenA'' 100]
   \<and> \<not> stale_free_strict 100 (snd (expire_holds 100 [held_seat 1 1 ''A1'' ''tokenA'' 100]))
   \<and> \<not> stale_free_strict 100
         (snd (expire_holds 100 [(new_seat 2 1 ''A2'')\<lparr>status := HOLD\<rparr>]))"
  by (simp add: stale_free_strict_def until_gt_def expire_holds_def qs_update_def expired_def
      until_lt_def held_seat_def new_seat_def)

subsection \<open>Transactions and results\<close>

lemma atomic_Inr: "atomic body db = (Inr r, db') \<longleftrightarrow> body db = (Inr r, db')"
  by (auto simp: atomic_def split: prod.splits sum.splits)

lemma result_sel [simp]:
  "ok (result b m d) = b" "message (result b m d) = m" "data (result b m d) = d"
  by (simp_all add: result_def)

lemmas ex_defs = held_seat_def new_seat_def expire_holds_def qs_update_def expired_def
  until_lt_def until_gte_def swept_def release_fields_def atomic_def result_def

lemma filter_key_swept:
  "filter (\<lambda>s. trip_id s = trip \<and> code s = c) (swept t db) =
   map (sweep_row t) (filter (\<lambda>s. trip_id s = trip \<and> code s = c) db)"
  by (simp add: swept_map filter_map comp_def)

lemma count_holds_swept:
  assumes "t_sweep \<le> t_count"
  shows "count_holds_for_token t_count trip token (swept t_sweep db) =
         count_holds_for_token t_count trip token db"
proof -
  have "(trip_id (sweep_row t_sweep s) = trip \<and> status (sweep_row t_sweep s) = HOLD
          \<and> hold_token (sweep_row t_sweep s) = Some token
          \<and> until_gte (hold_until (sweep_row t_sweep s)) t_count)
        = (trip_id s = trip \<and> status s = HOLD \<and> hold_token s = Some token
          \<and> until_gte (hold_until s) t_count)" for s
    using assms
    by (auto simp: sweep_row_def release_fields_def expired_def until_lt_def until_gte_def
        split: option.splits)
  then show ?thesis
    by (simp add: count_holds_for_token_def swept_map filter_map comp_def)
qed

subsection \<open>Refreshing a hold\<close>

lemma hold_deadline_value: "hold_deadline now m = Inr d \<Longrightarrow> d = now + m * 60000000"
  by (auto simp: hold_deadline_def timedelta_minutes_def datetime_add_def
      split: if_splits sum.splits)

lemma hold_seat_refused:
  "max_hold \<le> int (count_holds_for_token t_count trip token (swept t_sweep db)) \<Longrightarrow>
   hold_seat t_sweep now t_count trip seat_code token hold_minutes max_hold db =
     (Inr (result False (''Maksimal hold '' @ str_int max_hold @ '' kursi.'') None),
      swept t_sweep db)"
  by (simp add: hold_seat_def hold_seat_body_def atomic_def Let_def)

lemma hold_seat_body_refresh:
  assumes row: "filter (\<lambda>s. trip_id s = trip \<and> code s = seat_code) db = [seat]"
    and held: "status seat = HOLD" "hold_token seat = Some token"
              "hold_until seat = Some u" "t_sweep \<le> u" "now \<le> u"
    and quota: "int (count_holds_for_token t_count trip token (swept t_sweep db)) < max_hold"
  shows "hold_seat_body t_sweep now t_count trip seat_code token hold_minutes max_hold db =
     (case hold_deadline now hold_minutes of
        Inl e \<Rightarrow> (Inl e, swept t_sweep db)
      | Inr d \<Rightarrow>
          (Inr (result True ''Hold diperpanjang.''
                  (Some (seat_payload (seat\<lparr>hold_until := Some d\<rparr>)))),
           save_hold_until (seat\<lparr>hold_until := Some d\<rparr>) (swept t_sweep db)))"
proof -
  have fresh: "sweep_row t_sweep seat = seat"
    using held by (simp add: sweep_row_def expired_def until_lt_def)
  have cnt: "\<not> max_hold \<le> int (count_holds_for_token t_count trip token (swept t_sweep db))"
    using quota by simp
  have get: "get_row (filter (\<lambda>s. trip_id s = trip \<and> code s = seat_code) (swept t_sweep db))
             = Found seat"
    by (simp add: filter_key_swept row fresh)
  have active: "until_gte (hold_until seat) now"
    using held by (simp add: until_gte_def)
  show ?thesis
    unfolding hold_seat_body_def Let_def using cnt get active held
    by (simp split: sum.splits)
qed

lemma save_hold_until_row:
  assumes row: "filter (\<lambda>s. trip_id s = trip \<and> code s = seat_code) db = [seat]"
    and fresh: "sweep_row t_sweep seat = seat"
  shows "filter (\<lambda>s. trip_id s = trip \<and> code s = seat_code)
           (save_hold_until (seat\<lparr>hold_until := Some d\<rparr>) (swept t_sweep db)) =
         [seat\<lparr>hold_until := Some d\<rparr>]"
proof -
  have "filter (\<lambda>s. trip_id s = trip \<and> code s = seat_code)
          (save_hold_until (seat\<lparr>hold_until := Some d\<rparr>) (swept t_sweep db)) =
        map (\<lambda>r. if id_seat r = id_seat seat then r\<lparr>hold_until := Some d\<rparr> else r)
          (filter (\<lambda>s. trip_id s = trip \<and> code s = seat_code) (swept t_sweep db))"
    by (simp add: save_hold_until_def qs_update_def filter_map comp_def if_distrib [of trip_id]
        if_distrib [of code] cong: if_cong)
  also have "\<dots> = [seat\<lparr>hold_until := Some d\<rparr>]"
    by (simp add: filter_key_swept row fresh)
  finally show ?thesis .
qed

text \<open>
  Claim C1, as amended. Let \<open>seat\<close> be the one row of the trip with the requested code,
  under a hold of the caller's token whose deadline \<open>u\<close> is before neither the sweep's
  reading of the clock nor the call's \<open>now\<close>, and let the count the call takes after its
  sweep of the session's active holds in the trip be below \<^verbatim>\<open>max_hold_per_session\<close>. If
  \<open>now\<close> plus the hold duration is a datetime \<open>d\<close>, then \<^verbatim>\<open>hold_seat\<close> returns the success
  "Hold diperpanjang." and the stored row is the old row with \<^verbatim>\<open>hold_until\<close> set to \<open>d\<close>;
  \<^verbatim>\<open>hold_token\<close> and the other columns are as before. If that sum is out of the datetime
  range, the call raises \<^verbatim>\<open>OverflowError\<close> and the transaction is rolled back. Whatever
  the seat, when the count is at or above \<^verbatim>\<open>max_hold_per_session\<close> the call is refused
  with "Maksimal hold N kursi." and only the sweep is written.
\<close>

theorem hold_seat_refresh:
  "(filter (\<lambda>s. trip_id s = trip \<and> code s = seat_code) db = [seat]
      \<and> status seat = HOLD \<and> hold_token seat = Some token
      \<and> hold_until seat = Some u \<and> t_sweep \<le> u \<and> now \<le> u
      \<and> int (count_holds_for_token t_count trip token (snd (expire_holds t_sweep db))) < max_hold
    \<longrightarrow>
      (hold_deadline now hold_minutes = Inr d \<longrightarrow>
         d = now + hold_minutes * 60000000
         \<and> hold_seat t_sweep now t_count trip seat_code token hold_minutes max_hold db =
             (Inr (result True ''Hold diperpanjang.''
                     (Some (seat_payload (seat\<lparr>hold_until := Some d\<rparr>)))),
              save_hold_until (seat\<lparr>hold_until := Some d\<rparr>) (snd (expire_holds t_sweep db)))
         \<and> filter (\<lambda>s. trip_id s = trip \<and> code s = seat_code)
              (snd (hold_seat t_sweep now t_count trip seat_code token hold_minutes max_hold db))
             = [seat\<lparr>hold_until := Some d\<rparr>])
      \<and> (hold_deadline now hold_minutes = Inl e \<longrightarrow>
         hold_seat t_sweep now t_count trip seat_code token hold_minutes max_hold db
           = (Inl e, db)))
   \<and> (max_hold \<le> int (count_holds_for_token t_count trip token (snd (expire_holds t_sweep db)))
    \<longrightarrow>
      hold_seat t_sweep now t_count trip seat_code token hold_minutes max_hold db =
        (Inr (result False (''Maksimal hold '' @ str_int max_hold @ '' kursi.'') None),
         snd (expire_holds t_sweep db)))"
proof (intro conjI impI; (elim conjE)?)
  assume row: "filter (\<lambda>s. trip_id s = trip \<and> code s = seat_code) db = [seat]"
    and held: "status seat = HOLD" "hold_token seat = Some token"
      "hold_until seat = Some u" "t_sweep \<le> u" "now \<le> u"
    and quota: "int (count_holds_for_token t_count trip token (snd (expire_holds t_sweep db)))
                < max_hold"
  from quota have quota': "int (count_holds_for_token t_count trip token (swept t_sweep db))
                           < max_hold"
    by (simp add: swept_def)
  note body = hold_seat_body_refresh [OF row held quota', where hold_minutes = hold_minutes]
  have fresh: "sweep_row t_sweep seat = seat"
    using held by (simp add: sweep_row_def expired_def until_lt_def)
  {
    assume ok: "hold_deadline now hold_minutes = Inr d"
    show "d = now + hold_minutes * 60000000"
      using ok by (rule hold_deadline_value)
    from body ok
    show call: "hold_seat t_sweep now t_count trip seat_code token hold_minutes max_hold db =
             (Inr (result True ''Hold diperpanjang.''
                     (Some (seat_payload (seat\<lparr>hold_until := Some d\<rparr>)))),
              save_hold_until (seat\<lparr>hold_until := Some d\<rparr>) (snd (expire_holds t_sweep db)))"
      by (simp add: hold_seat_def atomic_def swept_def)
    show "filter (\<lambda>s. trip_id s = trip \<and> code s = seat_code)
              (snd (hold_seat t_sweep now t_count trip seat_code token hold_minutes max_hold db))
             = [seat\<lparr>hold_until := Some d\<rparr>]"
      using save_hold_until_row [OF row fresh, of d] by (simp add: call swept_def)
  }
  {
    assume bad: "hold_deadline now hold_minutes = Inl e"
    from body bad
    show "hold_seat t_sweep now t_count trip seat_code token hold_minutes max_hold db
           = (Inl e, db)"
      by (simp add: hold_seat_def atomic_def)
  }
next
  assume "max_hold \<le> int (count_holds_for_token t_count trip token
                           (snd (expire_holds t_sweep db)))"
  then have "max_hold \<le> int (count_holds_for_token t_count trip token (swept t_sweep db))"
    by (simp add: swept_def)
  then show "hold_seat t_sweep now t_count trip seat_code token hold_minutes max_hold db =
        (Inr (result False (''Maksimal hold '' @ str_int max_hold @ '' kursi.'') None),
         snd (expire_holds t_sweep db))"
    by (simp add: hold_seat_refused swept_def)
qed

theorem hold_seat_refresh_witness:
  "hold_seat 0 0 0 1 ''A1'' ''tokenA'' 10 2
     [held_seat 1 1 ''A1'' ''tokenA'' 600, new_seat 2 1 ''A2''] =
   (Inr (result True ''Hold diperpanjang.''
      (Some (seat_payload (held_seat 1 1 ''A1'' ''tokenA'' 600000000)))),
    [held_seat 1 1 ''A1'' ''tokenA'' 600000000, new_seat 2 1 ''A2''])
   \<and> hold_seat 0 0 0 1 ''A1'' ''tokenA'' 5000000000 2
     [held_seat 1 1 ''A1'' ''tokenA'' 600, new_seat 2 1 ''A2''] =
   (Inl OverflowError, [held_seat 1 1 ''A1'' ''tokenA'' 600, new_seat 2 1 ''A2''])
   \<and> hold_seat 0 0 0 1 ''A1'' ''tokenA'' 10 4 db_full =
   (Inr (result False ''Maksimal hold 4 kursi.'' None), db_full)"
proof -
  let ?db = "[held_seat 1 1 ''A1'' ''tokenA'' 600, new_seat 2 1 ''A2'']"
  note all = hold_seat_refresh
  have pre: "filter (\<lambda>s. trip_id s = 1 \<and> code s = ''A1'') ?db =
               [held_seat 1 1 ''A1'' ''tokenA'' 600]
     \<and> status (held_seat 1 1 ''A1'' ''tokenA'' 600) = HOLD
     \<and> hold_token (held_seat 1 1 ''A1'' ''tokenA'' 600) = Some ''tokenA''
     \<and> hold_until (held_seat 1 1 ''A1'' ''tokenA'' 600) = Some 600
     \<and> (0::int) \<le> 600 \<and> (0::int) \<le> 600
     \<and> int (count_holds_for_token 0 1 ''tokenA'' (snd (expire_holds 0 ?db))) < 2"
    by (simp add: count_holds_for_token_def ex_defs)
  have good: "hold_deadline 0 10 = Inr 600000000"
    by (simp add: hold_deadline_def timedelta_minutes_def datetime_add_def datetime_min_def
        datetime_max_def)
  have bad: "hold_deadline 0 5000000000 = Inl OverflowError"
    by (simp add: hold_deadline_def timedelta_minutes_def datetime_add_def datetime_min_def
        datetime_max_def)
  have full: "(4::int) \<le> int (count_holds_for_token 0 1 ''tokenA''
                                 (snd (expire_holds 0 db_full)))"
    by (simp add: db_full_def count_holds_for_token_def ex_defs)
  have sw: "snd (expire_holds 0 ?db) = ?db" "snd (expire_holds 0 db_full) = db_full"
    by (simp_all add: db_full_def ex_defs)
  have a: "hold_seat 0 0 0 1 ''A1'' ''tokenA'' 10 2 ?db =
           (Inr (result True ''Hold diperpanjang.''
              (Some (seat_payload ((held_seat 1 1 ''A1'' ''tokenA'' 600)
                                     \<lparr>hold_until := Some 600000000\<rparr>)))),
            save_hold_until ((held_seat 1 1 ''A1'' ''tokenA'' 600)\<lparr>hold_until := Some 600000000\<rparr>)
              (snd (expire_holds 0 ?db)))"
    by (rule all [THEN conjunct1, THEN mp, OF pre, THEN conjunct1, THEN mp, OF good,
          THEN conjunct2, THEN conjunct1])
  have b: "hold_seat 0 0 0 1 ''A1'' ''tokenA'' 5000000000 2 ?db = (Inl OverflowError, ?db)"
    by (rule all [THEN conjunct1, THEN mp, OF pre, THEN conjunct2, THEN mp, OF bad])
  have c: "hold_seat 0 0 0 1 ''A1'' ''tokenA'' 10 4 db_full =
           (Inr (result False (''Maksimal hold '' @ str_int 4 @ '' kursi.'') None),
            snd (expire_holds 0 db_full))"
    by (rule all [THEN conjunct2, THEN mp, OF full])
  have c': "hold_seat 0 0 0 1 ''A1'' ''tokenA'' 10 4 db_full =
            (Inr (result False ''Maksimal hold 4 kursi.'' None), db_full)"
    using c by (simp add: sw str_int_def str_nat.simps digit_char_def)
  have h: "(held_seat 1 1 ''A1'' ''tokenA'' 600)\<lparr>hold_until := Some 600000000\<rparr> =
           held_seat 1 1 ''A1'' ''tokenA'' 600000000"
    by (simp add: held_seat_def)
  have s: "save_hold_until (held_seat 1 1 ''A1'' ''tokenA'' 600000000) ?db =
           [held_seat 1 1 ''A1'' ''tokenA'' 600000000, new_seat 2 1 ''A2'']"
    by (simp add: save_hold_until_def qs_update_def held_seat_def new_seat_def)
  have a': "hold_seat 0 0 0 1 ''A1'' ''tokenA'' 10 2 ?db =
            (Inr (result True ''Hold diperpanjang.''
               (Some (seat_payload (held_seat 1 1 ''A1'' ''tokenA'' 600000000)))),
             [held_seat 1 1 ''A1'' ''tokenA'' 600000000, new_seat 2 1 ''A2''])"
    using a by (simp only: sw h s)
  from a' b c' show ?thesis
    by (intro conjI)
qed

text \<open>
  Claim C1 as stated fails in two ways. A session that holds four seats, all unexpired,
  and refreshes one of them under the default quota of four is refused by the quota check,
  which runs before the seat is looked at; nothing is extended. And a refresh below the
  quota with a hold duration of 5000000000 minutes does not succeed: the deadline would
  lie past year 9999, \<^verbatim>\<open>now + timedelta(...)\<close> raises, and the table is rolled back.
\<close>

theorem hold_seat_refresh_counterexample:
  "status (db_full ! 0) = HOLD \<and> hold_token (db_full ! 0) = Some ''tokenA''
   \<and> code (db_full ! 0) = ''A1'' \<and> trip_id (db_full ! 0) = 1
   \<and> hold_until (db_full ! 0) = Some 600
   \<and> hold_seat 0 0 0 1 ''A1'' ''tokenA'' 10 4 db_full =
       (Inr (result False ''Maksimal hold 4 kursi.'' None), db_full)
   \<and> hold_seat 0 0 0 1 ''A1'' ''tokenA'' 5000000000 4
       [held_seat 1 1 ''A1'' ''tokenA'' 600] =
       (Inl OverflowError, [held_seat 1 1 ''A1'' ''tokenA'' 600])"
  by (simp add: db_full_def hold_seat_def hold_seat_body_def count_holds_for_token_def ex_defs
      str_int_def str_nat.simps digit_char_def hold_deadline_def timedelta_minutes_def
      datetime_add_def datetime_min_def datetime_max_def)

subsection \<open>Failure results\<close>

lemma hold_seat_failure:
  "hold_seat t_sweep now t_count trip c token m mx db = (Inr r, db') \<Longrightarrow> \<not> ok r
   \<Longrightarrow> db' = swept t_sweep db"
  by (auto simp: hold_seat_def atomic_Inr hold_seat_body_def Let_def
      split: if_splits lookup.splits sum.splits)

lemma release_seat_failure:
  "release_seat t_sweep now trip c token db = (Inr r, db') \<Longrightarrow> \<not> ok r
   \<Longrightarrow> db' = swept t_sweep db"
  by (auto simp: release_seat_def atomic_Inr release_seat_body_def Let_def
      split: if_splits lookup.splits)

lemma attach_failure:
  "attach_contact_and_generate_claim t_sweep now g trips trip token name wa db = (Inr r, db')
   \<Longrightarrow> \<not> ok r \<Longrightarrow> db' = swept t_sweep db"
  by (auto simp: attach_contact_and_generate_claim_def atomic_Inr
      attach_contact_and_generate_claim_body_def Let_def
      split: if_splits lookup.splits)

lemma claim_failure:
  "claim_hold_by_code upper t_sweep now trip claim new wa db = (Inr r, db')
   \<Longrightarrow> \<not> ok r \<Longrightarrow> db' = swept t_sweep db"
  by (auto simp: claim_hold_by_code_def atomic_Inr claim_hold_by_code_body_def Let_def
      split: if_splits)

lemma admin_book_failure:
  "admin_generate_booking_code_and_book row_key t_sweep now g trip codes db = (Inr r, db')
   \<Longrightarrow> \<not> ok r \<Longrightarrow> db' = swept t_sweep db"
  by (auto simp: admin_generate_booking_code_and_book_def atomic_Inr
      admin_generate_booking_code_and_book_body_def Let_def split: if_splits)

lemma confirm_failure:
  "confirm_booked_by_admin row_key t_sweep now trip codes db = (Inr r, db')
   \<Longrightarrow> \<not> ok r \<Longrightarrow> db' = swept t_sweep db"
  by (auto simp: confirm_booked_by_admin_def atomic_Inr
      confirm_booked_by_admin_body_def Let_def split: if_splits)

text \<open>
  Claim C2, as amended. A failure is a returned \<^verbatim>\<open>ServiceResult\<close>, not an exception, so
  \<^verbatim>\<open>@transaction.atomic\<close> commits: whenever one of the six operations returns a failure
  result, the stored seats after the call are exactly the result of the expiry sweep the
  operation ran first. The sweep is the only write; the operation's own step writes
  nothing, and a seat that was not a stale hold is as it was before the call.
\<close>

theorem failure_commits_only_the_sweep:
  "(hold_seat t_sweep now t_count trip seat_code token hold_minutes max_hold db = (Inr r, db')
      \<and> \<not> ok r \<longrightarrow> db' = snd (expire_holds t_sweep db))
   \<and> (release_seat t_sweep now trip seat_code token db = (Inr r, db')
      \<and> \<not> ok r \<longrightarrow> db' = snd (expire_holds t_sweep db))
   \<and> (attach_contact_and_generate_claim t_sweep now generated trips trip token name wa db
        = (Inr r, db')
      \<and> \<not> ok r \<longrightarrow> db' = snd (expire_holds t_sweep db))
   \<and> (claim_hold_by_code upper t_sweep now trip claim new_hold_token wa_filter db = (Inr r, db')
      \<and> \<not> ok r \<longrightarrow> db' = snd (expire_holds t_sweep db))
   \<and> (admin_generate_booking_code_and_book row_key t_sweep now generated trip seat_codes db
        = (Inr r, db')
      \<and> \<not> ok r \<longrightarrow> db' = snd (expire_holds t_sweep db))
   \<and> (confirm_booked_by_admin row_key t_sweep now trip seat_codes db = (Inr r, db')
      \<and> \<not> ok r \<longrightarrow> db' = snd (expire_holds t_sweep db))"
proof (intro conjI impI; elim conjE)
  assume "hold_seat t_sweep now t_count trip seat_code token hold_minutes max_hold db
          = (Inr r, db')" "\<not> ok r"
  then show "db' = snd (expire_holds t_sweep db)"
    using hold_seat_failure by (simp add: swept_def)
next
  assume "release_seat t_sweep now trip seat_code token db = (Inr r, db')" "\<not> ok r"
  then show "db' = snd (expire_holds t_sweep db)"
    using release_seat_failure by (simp add: swept_def)
next
  assume "attach_contact_and_generate_claim t_sweep now generated trips trip token name wa db
          = (Inr r, db')" "\<not> ok r"
  then show "db' = snd (expire_holds t_sweep db)"
    using attach_failure by (simp add: swept_def)
next
  assume "claim_hold_by_code upper t_sweep now trip claim new_hold_token wa_filter db = (Inr r, db')"
    "\<not> ok r"
  then show "db' = snd (expire_holds t_sweep db)"
    using claim_failure by (simp add: swept_def)
next
  assume "admin_generate_booking_code_and_book row_key t_sweep now generated trip seat_codes db
          = (Inr r, db')" "\<not> ok r"
  then show "db' = snd (expire_holds t_sweep db)"
    using admin_book_failure by (simp add: swept_def)
next
  assume "confirm_booked_by_admin row_key t_sweep now trip seat_codes db = (Inr r, db')" "\<not> ok r"
  then show "db' = snd (expire_holds t_sweep db)"
    using confirm_failure by (simp add: swept_def)
qed

theorem failure_commits_only_the_sweep_witness:
  "hold_seat 100 100 100 1 ''Z9'' ''tokenB'' 10 4 db_stale =
     (Inr (result False ''Kursi tidak ditemukan.'' None), snd (expire_holds 100 db_stale))
   \<and> release_seat 100 100 1 ''A2'' ''tokenB'' db_stale =
     (Inr (result False ''Kursi tidak sedang di-hold aktif.'' None),
      snd (expire_holds 100 db_stale))
   \<and> attach_contact_and_generate_claim 100 100 ''ABCD-EFGH'' [] 1 ''tokenB'' ''Budi'' ''08''
       db_stale =
     (Inr (result False ''Trip tidak ditemukan.'' None), snd (expire_holds 100 db_stale))
   \<and> claim_hold_by_code str_upper 100 100 1 ''ABCD-EFGH'' ''tokenB'' None db_stale =
     (Inr (result False ''Claim code tidak valid atau sudah expired.'' None),
      snd (expire_holds 100 db_stale))
   \<and> admin_generate_booking_code_and_book id_seat 100 100 ''ABCD-EFGH'' 1 [''Z9''] db_stale =
     (Inr (result False ''Ada kursi yang tidak ditemukan.'' None),
      snd (expire_holds 100 db_stale))
   \<and> confirm_booked_by_admin id_seat 100 100 1 [''Z9''] db_stale =
     (Inr (result False ''Ada kursi yang tidak ditemukan.'' None),
      snd (expire_holds 100 db_stale))"
proof -
  let ?db = "[new_seat 1 1 ''A1'', new_seat 2 1 ''A2'']"
  note all = failure_commits_only_the_sweep
  note rules =
    all [THEN conjunct1, THEN mp]
    all [THEN conjunct2, THEN conjunct1, THEN mp]
    all [THEN conjunct2, THEN conjunct2, THEN conjunct1, THEN mp]
    all [THEN conjunct2, THEN conjunct2, THEN conjunct2, THEN conjunct1, THEN mp]
    all [THEN conjunct2, THEN conjunct2, THEN conjunct2, THEN conjunct2, THEN conjunct1, THEN mp]
    all [THEN conjunct2, THEN conjunct2, THEN conjunct2, THEN conjunct2, THEN conjunct2, THEN mp]
  have no: "\<not> ok (result False m None)" for m
    by simp
  have 1: "hold_seat 100 100 100 1 ''Z9'' ''tokenB'' 10 4 db_stale =
           (Inr (result False ''Kursi tidak ditemukan.'' None), ?db)"
    by (simp add: db_stale_def hold_seat_def hold_seat_body_def count_holds_for_token_def
        ex_defs)
  have 2: "release_seat 100 100 1 ''A2'' ''tokenB'' db_stale =
           (Inr (result False ''Kursi tidak sedang di-hold aktif.'' None), ?db)"
    by (simp add: db_stale_def release_seat_def release_seat_body_def ex_defs)
  have 3: "attach_contact_and_generate_claim 100 100 ''ABCD-EFGH'' [] 1 ''tokenB''
             ''Budi'' ''08'' db_stale = (Inr (result False ''Trip tidak ditemukan.'' None), ?db)"
    by (simp add: db_stale_def attach_contact_and_generate_claim_def
        attach_contact_and_generate_claim_body_def ex_defs)
  have 4: "claim_hold_by_code str_upper 100 100 1 ''ABCD-EFGH'' ''tokenB'' None db_stale =
           (Inr (result False ''Claim code tidak valid atau sudah expired.'' None), ?db)"
    by (simp add: db_stale_def claim_hold_by_code_def claim_hold_by_code_body_def
        claim_match_def ex_defs)
  have 5: "admin_generate_booking_code_and_book id_seat 100 100 ''ABCD-EFGH'' 1 [''Z9''] db_stale =
           (Inr (result False ''Ada kursi yang tidak ditemukan.'' None), ?db)"
    by (simp add: db_stale_def admin_generate_booking_code_and_book_def
        admin_generate_booking_code_and_book_body_def requested_def ex_defs)
  have 6: "confirm_booked_by_admin id_seat 100 100 1 [''Z9''] db_stale =
           (Inr (result False ''Ada kursi yang tidak ditemukan.'' None), ?db)"
    by (simp add: db_stale_def confirm_booked_by_admin_def confirm_booked_by_admin_body_def
        requested_def ex_defs)
  have a: "?db = snd (expire_holds 100 db_stale)"
    by (rule rules(1) [OF conjI [OF 1 no]])
  have b: "?db = snd (expire_holds 100 db_stale)"
    by (rule rules(2) [OF conjI [OF 2 no]])
  have c: "?db = snd (expire_holds 100 db_stale)"
    by (rule rules(3) [OF conjI [OF 3 no]])
  have d: "?db = snd (expire_holds 100 db_stale)"
    by (rule rules(4) [OF conjI [OF 4 no]])
  have e: "?db = snd (expire_holds 100 db_stale)"
    by (rule rules(5) [OF conjI [OF 5 no]])
  have f: "?db = snd (expire_holds 100 db_stale)"
    by (rule rules(6) [OF conjI [OF 6 no]])
  show ?thesis
    using 1 [unfolded a] 2 [unfolded b] 3 [unfolded c] 4 [unfolded d] 5 [unfolded e]
      6 [unfolded f]
    by (intro conjI)
qed

text \<open>
  Claim C2 as stated fails: holding a seat code that does not exist returns the failure
  "Kursi tidak ditemukan.", and the stale hold on A1 has been released all the same, with
  its token and deadline cleared; the table after the call is not the table before it.
\<close>

theorem failure_rollback_counterexample:
  "hold_seat 100 100 100 1 ''Z9'' ''tokenB'' 10 4 db_stale =
     (Inr (result False ''Kursi tidak ditemukan.'' None), [new_seat 1 1 ''A1'', new_seat 2 1 ''A2''])
   \<and> [new_seat 1 1 ''A1'', new_seat 2 1 ''A2''] \<noteq> db_stale"
  by (simp add: db_stale_def hold_seat_def hold_seat_body_def count_holds_for_token_def
      ex_defs)

subsection \<open>Admin finalisation\<close>

lemma requested_sweep_row [simp]:
  "requested trip codes (sweep_row t s) = requested trip codes s"
  by (simp add: requested_def)

lemma filter_requested_swept:
  "filter (requested trip codes) (swept t db) =
   map (sweep_row t) (filter (requested trip codes) db)"
  by (simp add: swept_map filter_map comp_def)

lemma sweep_row_booked_same: "status s = BOOKED \<Longrightarrow> sweep_row t s = s"
  by (simp add: sweep_row_def expired_def)

lemma booked_rows_swept:
  "filter (\<lambda>s. requested trip codes s \<and> status s = BOOKED) (swept t db) =
   filter (\<lambda>s. requested trip codes s \<and> status s = BOOKED) db"
proof -
  have "filter (\<lambda>s. requested trip codes s \<and> status s = BOOKED) (swept t db) =
        map (sweep_row t) (filter (\<lambda>s. requested trip codes s \<and> status s = BOOKED) db)"
    by (simp add: swept_map filter_map comp_def)
  also have "\<dots> = filter (\<lambda>s. requested trip codes s \<and> status s = BOOKED) db"
    by (rule map_idI) (simp add: sweep_row_booked_same)
  finally show ?thesis .
qed

lemma already_booked_swept:
  "already_booked row_key trip codes (swept t db) = already_booked row_key trip codes db"
  by (simp add: already_booked_def booked_rows_swept)

lemma already_booked_mset:
  "mset (already_booked row_key trip codes db) =
   mset (map code (filter (\<lambda>s. requested trip codes s \<and> status s = BOOKED) db))"
  by (simp add: already_booked_def)

lemma already_booked_set:
  "set (already_booked row_key trip codes db) =
   code ` {s \<in> set db. requested trip codes s \<and> status s = BOOKED}"
  by (simp add: already_booked_def)

lemma already_booked_empty_iff:
  "already_booked row_key trip codes db = [] \<longleftrightarrow>
   (\<forall>s\<in>set db. requested trip codes s \<longrightarrow> status s \<noteq> BOOKED)"
  using already_booked_set [of row_key trip codes db]
  by (auto simp flip: set_empty)

lemma admin_book_not_found:
  "length (filter (requested trip codes) db) \<noteq> length codes \<Longrightarrow>
   admin_generate_booking_code_and_book row_key t_sweep now g trip codes db =
     (Inr (result False ''Ada kursi yang tidak ditemukan.'' None), swept t_sweep db)"
  by (simp add: admin_generate_booking_code_and_book_def
      admin_generate_booking_code_and_book_body_def atomic_def filter_requested_swept)

lemma confirm_not_found:
  "length (filter (requested trip codes) db) \<noteq> length codes \<Longrightarrow>
   confirm_booked_by_admin row_key t_sweep now trip codes db =
     (Inr (result False ''Ada kursi yang tidak ditemukan.'' None), swept t_sweep db)"
  by (simp add: confirm_booked_by_admin_def confirm_booked_by_admin_body_def atomic_def
      filter_requested_swept)

text \<open>
  Claim C3, as amended. When the number of seats of the trip whose code is among the
  requested codes differs from the number of requested codes, either admin finalize variant
  fails with the fixed message "Ada kursi yang tidak ditemukan." and no payload; the message
  is the same whatever codes are missing and names none of them. Only the sweep is written.
\<close>

theorem admin_finalize_not_found:
  "length (filter (requested trip seat_codes) db) \<noteq> length seat_codes \<Longrightarrow>
   admin_generate_booking_code_and_book row_key t_sweep now generated trip seat_codes db =
     (Inr (result False ''Ada kursi yang tidak ditemukan.'' None), snd (expire_holds t_sweep db))
   \<and> confirm_booked_by_admin row_key t_sweep now trip seat_codes db =
     (Inr (result False ''Ada kursi yang tidak ditemukan.'' None), snd (expire_holds t_sweep db))"
  by (simp add: admin_book_not_found confirm_not_found swept_def)

theorem admin_finalize_not_found_witness:
  "admin_generate_booking_code_and_book id_seat 0 0 ''BK-1'' 1 [''A1'', ''Z9'']
     [new_seat 1 1 ''A1''] =
     (Inr (result False ''Ada kursi yang tidak ditemukan.'' None), [new_seat 1 1 ''A1''])
   \<and> confirm_booked_by_admin id_seat 0 0 1 [''A1'', ''Z9''] [new_seat 1 1 ''A1''] =
     (Inr (result False ''Ada kursi yang tidak ditemukan.'' None), [new_seat 1 1 ''A1''])"
proof -
  have n: "length (filter (requested 1 [''A1'', ''Z9'']) [new_seat 1 1 ''A1''])
           \<noteq> length [''A1'', ''Z9'']"
    by (simp add: requested_def new_seat_def)
  have s: "snd (expire_holds 0 [new_seat 1 1 ''A1'']) = [new_seat 1 1 ''A1'']"
    by (simp add: ex_defs)
  from admin_finalize_not_found [OF n, where t_sweep = 0 and now = 0
      and generated = "''BK-1''" and row_key = id_seat] s
  show ?thesis
    by simp
qed

text \<open>
  Claim C3 as stated fails: with A1 present and Z9 absent, both variants fail with a
  message in which the missing code Z9 does not occur.
\<close>

theorem admin_finalize_not_found_counterexample:
  "fst (admin_generate_booking_code_and_book id_seat 0 0 ''BK-1'' 1 [''A1'', ''Z9'']
          [new_seat 1 1 ''A1'']) = Inr (result False ''Ada kursi yang tidak ditemukan.'' None)
   \<and> fst (confirm_booked_by_admin id_seat 0 0 1 [''A1'', ''Z9''] [new_seat 1 1 ''A1'']) =
       Inr (result False ''Ada kursi yang tidak ditemukan.'' None)
   \<and> \<not> occurs_in ''Z9'' ''Ada kursi yang tidak ditemukan.''"
  by (simp add: admin_generate_booking_code_and_book_def
      admin_generate_booking_code_and_book_body_def confirm_booked_by_admin_def
      confirm_booked_by_admin_body_def requested_def ex_defs)

lemma admin_book_already_booked:
  assumes "length (filter (requested trip codes) db) = length codes"
    and "already_booked row_key trip codes db \<noteq> []"
  shows "admin_generate_booking_code_and_book row_key t_sweep now g trip codes db =
     (Inr (result False
             (''Kursi sudah BOOKED: '' @ str_join '', '' (already_booked row_key trip codes db))
             None),
      swept t_sweep db)"
  using assms
  by (simp add: admin_generate_booking_code_and_book_def
      admin_generate_booking_code_and_book_body_def atomic_def filter_requested_swept
      already_booked_swept)

lemma confirm_already_booked:
  assumes "length (filter (requested trip codes) db) = length codes"
    and "already_booked row_key trip codes db \<noteq> []"
  shows "confirm_booked_by_admin row_key t_sweep now trip codes db =
     (Inr (result False
             (''Kursi sudah BOOKED: '' @ str_join '', '' (already_booked row_key trip codes db))
             None),
      swept t_sweep db)"
  using assms
  by (simp add: confirm_booked_by_admin_def confirm_booked_by_admin_body_def atomic_def
      filter_requested_swept already_booked_swept)

lemma already_booked_mem:
  "s \<in> set db \<Longrightarrow> requested trip codes s \<Longrightarrow> status s = BOOKED
   \<Longrightarrow> code s \<in> set (already_booked row_key trip codes db)"
  by (auto simp: already_booked_set)

text \<open>
  Claim C4, as amended. When every requested code resolves (the count of loaded seats
  equals the count of requested codes) and a loaded seat \<open>s\<close> is already BOOKED, either
  admin finalize variant fails with "Kursi sudah BOOKED: " followed by the codes of the
  booked seats of the request, each once and the code of \<open>s\<close> among them, in the order in
  which the database returns those rows, and books nothing: the stored seats are those the
  expiry sweep leaves. A requested seat that was a stale hold has been released by that
  sweep; every other seat is unchanged.
\<close>

theorem admin_finalize_already_booked:
  assumes "length (filter (requested trip seat_codes) db) = length seat_codes"
    and "s \<in> set db" "requested trip seat_codes s" "status s = BOOKED"
  shows "admin_generate_booking_code_and_book row_key t_sweep now generated trip seat_codes db =
     (Inr (result False
             (''Kursi sudah BOOKED: ''
              @ str_join '', '' (already_booked row_key trip seat_codes db))
             None),
      snd (expire_holds t_sweep db))
   \<and> confirm_booked_by_admin row_key t_sweep now trip seat_codes db =
     (Inr (result False
             (''Kursi sudah BOOKED: ''
              @ str_join '', '' (already_booked row_key trip seat_codes db))
             None),
      snd (expire_holds t_sweep db))
   \<and> mset (already_booked row_key trip seat_codes db) =
       mset (map code (filter (\<lambda>s. requested trip seat_codes s \<and> status s = BOOKED) db))
   \<and> code s \<in> set (already_booked row_key trip seat_codes db)
   \<and> snd (expire_holds t_sweep db) = map (sweep_row t_sweep) db"
proof -
  have mem: "code s \<in> set (already_booked row_key trip seat_codes db)"
    using assms(2-4) by (rule already_booked_mem)
  then have ne: "already_booked row_key trip seat_codes db \<noteq> []"
    by auto
  have a: "admin_generate_booking_code_and_book row_key t_sweep now generated trip seat_codes db
           = (Inr (result False
                     (''Kursi sudah BOOKED: ''
                      @ str_join '', '' (already_booked row_key trip seat_codes db))
                     None),
              snd (expire_holds t_sweep db))"
    using admin_book_already_booked [OF assms(1) ne] by (simp add: swept_def)
  have b: "confirm_booked_by_admin row_key t_sweep now trip seat_codes db
           = (Inr (result False
                     (''Kursi sudah BOOKED: ''
                      @ str_join '', '' (already_booked row_key trip seat_codes db))
                     None),
              snd (expire_holds t_sweep db))"
    using confirm_already_booked [OF assms(1) ne] by (simp add: swept_def)
  have c: "snd (expire_holds t_sweep db) = map (sweep_row t_sweep) db"
    using swept_map [of t_sweep db] by (simp add: swept_def)
  from a b mem c already_booked_mset [of row_key trip seat_codes db] show ?thesis
    by (intro conjI)
qed

theorem admin_finalize_already_booked_witness:
  "admin_generate_booking_code_and_book id_seat 100 100 ''BK-1'' 1 [''A1'', ''A2'', ''B1'']
     db_two_booked =
     (Inr (result False ''Kursi sudah BOOKED: A1, B1'' None),
      [db_two_booked ! 0, new_seat 2 1 ''A2'', db_two_booked ! 2])
   \<and> confirm_booked_by_admin (\<lambda>s. - id_seat s) 100 100 1 [''A1'', ''A2'', ''B1'']
     db_two_booked =
     (Inr (result False ''Kursi sudah BOOKED: B1, A1'' None),
      [db_two_booked ! 0, new_seat 2 1 ''A2'', db_two_booked ! 2])"
proof -
  let ?codes = "[''A1'', ''A2'', ''B1'']"
  let ?a = "(new_seat 1 1 ''A1'')\<lparr>status := BOOKED, booked_at := Some 10\<rparr>"
  have n: "length (filter (requested 1 ?codes) db_two_booked) = length ?codes"
    by (simp add: requested_def db_two_booked_def held_seat_def new_seat_def)
  have m: "?a \<in> set db_two_booked"
    by (simp add: db_two_booked_def)
  have r: "requested 1 ?codes ?a"
    by (simp add: requested_def new_seat_def)
  have b: "status ?a = BOOKED"
    by simp
  have up: "already_booked id_seat 1 ?codes db_two_booked = [''A1'', ''B1'']"
    by (simp add: already_booked_def requested_def db_two_booked_def held_seat_def
        new_seat_def)
  have down: "already_booked (\<lambda>s. - id_seat s) 1 ?codes db_two_booked = [''B1'', ''A1'']"
    by (simp add: already_booked_def requested_def db_two_booked_def held_seat_def
        new_seat_def)
  have s: "snd (expire_holds 100 db_two_booked) =
           [db_two_booked ! 0, new_seat 2 1 ''A2'', db_two_booked ! 2]"
    by (simp add: db_two_booked_def ex_defs)
  note inst = admin_finalize_already_booked [OF n m r b, where t_sweep = 100 and now = 100
      and generated = "''BK-1''"]
  from inst [where row_key = id_seat, THEN conjunct1]
    inst [where row_key = "\<lambda>s. - id_seat s", THEN conjunct2, THEN conjunct1]
  show ?thesis
    by (simp add: up down s)
qed

text \<open>
  Claim C4 as stated fails: finalising A1 and A2, where A1 is BOOKED and A2 is a stale
  hold, fails naming A1, and the requested seat A2 is not left unchanged: the call has
  released it and cleared its token, deadline, contact and claim code. Finalising A1 and
  the absent Z9 fails on the count check, before the booked seat A1 is looked at.
\<close>

theorem admin_finalize_already_booked_counterexample:
  "db_booked ! 1 =
     (held_seat 2 1 ''A2'' ''tokenA'' 50)\<lparr>customer_name := Some ''Budi'',
        customer_wa := Some ''08'', claim_code := Some ''ABCD-EFGH''\<rparr>
   \<and> fst (confirm_booked_by_admin id_seat 100 100 1 [''A1'', ''A2''] db_booked) =
       Inr (result False ''Kursi sudah BOOKED: A1'' None)
   \<and> snd (confirm_booked_by_admin id_seat 100 100 1 [''A1'', ''A2''] db_booked) ! 1 =
       new_seat 2 1 ''A2''
   \<and> new_seat 2 1 ''A2'' \<noteq> db_booked ! 1
   \<and> fst (admin_generate_booking_code_and_book id_seat 100 100 ''BK-1'' 1 [''A1'', ''A2'']
            db_booked) =
       Inr (result False ''Kursi sudah BOOKED: A1'' None)
   \<and> snd (admin_generate_booking_code_and_book id_seat 100 100 ''BK-1'' 1 [''A1'', ''A2'']
            db_booked) ! 1 = new_seat 2 1 ''A2''
   \<and> fst (confirm_booked_by_admin id_seat 100 100 1 [''A1'', ''Z9''] db_booked) =
       Inr (result False ''Ada kursi yang tidak ditemukan.'' None)
   \<and> fst (admin_generate_booking_code_and_book id_seat 100 100 ''BK-1'' 1 [''A1'', ''Z9'']
            db_booked) =
       Inr (result False ''Ada kursi yang tidak ditemukan.'' None)"
  by (simp add: db_booked_def admin_generate_booking_code_and_book_def
      admin_generate_booking_code_and_book_body_def confirm_booked_by_admin_def
      confirm_booked_by_admin_body_def requested_def already_booked_def ex_defs)

lemma qs_update_swept:
  "qs_update (requested trip codes) f (swept t db) =
   map (\<lambda>s. if requested trip codes s then f (sweep_row t s) else sweep_row t s) db"
  by (simp add: qs_update_def swept_map comp_def)

lemma admin_book_success:
  assumes "length (filter (requested trip codes) db) = length codes"
    and "\<forall>s\<in>set db. requested trip codes s \<longrightarrow> status s \<noteq> BOOKED"
  shows "admin_generate_booking_code_and_book row_key t_sweep now g trip codes db =
     (Inr (result True ''BOOKED + booking code dibuat.'' (Some (BookingData codes g))),
      map (\<lambda>s. if requested trip codes s
                then (sweep_row t_sweep s)\<lparr>status := BOOKED, booked_at := Some now,
                       booking_code := Some g, hold_token := None, hold_until := None\<rparr>
                else sweep_row t_sweep s) db)"
proof -
  have none: "already_booked row_key trip codes (swept t_sweep db) = []"
    using assms(2) by (simp add: already_booked_swept already_booked_empty_iff)
  have len: "length (filter (requested trip codes) (swept t_sweep db)) = length codes"
    using assms(1) by (simp add: filter_requested_swept)
  show ?thesis
    by (simp add: admin_generate_booking_code_and_book_def
        admin_generate_booking_code_and_book_body_def atomic_def none len qs_update_swept)
qed

lemma confirm_success:
  assumes "length (filter (requested trip codes) db) = length codes"
    and "\<forall>s\<in>set db. requested trip codes s \<longrightarrow> status s \<noteq> BOOKED"
  shows "confirm_booked_by_admin row_key t_sweep now trip codes db =
     (Inr (result True ''Kursi berhasil dikonfirmasi BOOKED.'' (Some (ConfirmData codes))),
      map (\<lambda>s. if requested trip codes s
                then (sweep_row t_sweep s)\<lparr>status := BOOKED, booked_at := Some now,
                       hold_token := None, hold_until := None\<rparr>
                else sweep_row t_sweep s) db)"
proof -
  have none: "already_booked row_key trip codes (swept t_sweep db) = []"
    using assms(2) by (simp add: already_booked_swept already_booked_empty_iff)
  have len: "length (filter (requested trip codes) (swept t_sweep db)) = length codes"
    using assms(1) by (simp add: filter_requested_swept)
  show ?thesis
    by (simp add: confirm_booked_by_admin_def confirm_booked_by_admin_body_def atomic_def
        none len qs_update_swept)
qed

lemma admin_book_ok_only_if:
  assumes "admin_generate_booking_code_and_book row_key t_sweep now g trip codes db
           = (Inr r, db')" and "ok r"
  shows "length (filter (requested trip codes) db) = length codes
         \<and> (\<forall>s\<in>set db. requested trip codes s \<longrightarrow> status s \<noteq> BOOKED)"
proof (rule ccontr)
  assume neg: "\<not> ?thesis"
  show False
  proof (cases "length (filter (requested trip codes) db) = length codes")
    case False
    from admin_book_not_found [OF False, of row_key t_sweep now g] assms show False
      by simp
  next
    case True
    with neg have "already_booked row_key trip codes db \<noteq> []"
      by (simp add: already_booked_empty_iff)
    from admin_book_already_booked [OF True this, of t_sweep now g] assms show False
      by simp
  qed
qed

lemma confirm_ok_only_if:
  assumes "confirm_booked_by_admin row_key t_sweep now trip codes db = (Inr r, db')"
    and "ok r"
  shows "length (filter (requested trip codes) db) = length codes
         \<and> (\<forall>s\<in>set db. requested trip codes s \<longrightarrow> status s \<noteq> BOOKED)"
proof (rule ccontr)
  assume neg: "\<not> ?thesis"
  show False
  proof (cases "length (filter (requested trip codes) db) = length codes")
    case False
    from confirm_not_found [OF False, of row_key t_sweep now] assms show False
      by simp
  next
    case True
    with neg have "already_booked row_key trip codes db \<noteq> []"
      by (simp add: already_booked_empty_iff)
    from confirm_already_booked [OF True this, of t_sweep now] assms show False
      by simp
  qed
qed

text \<open>
  Claim C9, as amended. Neither admin finalize variant looks at whether, or by whom, a
  requested seat is held; no session token is a parameter of either. Provided every
  requested code resolves (the count of loaded seats equals the count of requested codes)
  and no requested seat is BOOKED, both variants succeed, and every requested row,
  whatever its status, token and deadline were, is stored with status BOOKED,
  \<^verbatim>\<open>booked_at = now\<close> and \<^verbatim>\<open>hold_token\<close>, \<^verbatim>\<open>hold_until\<close> cleared (and the generated booking
  code in the primary variant); the other rows are as the sweep leaves them. A variant
  succeeds only then: besides an already-BOOKED seat, a count mismatch makes it fail.
\<close>

theorem admin_finalize_books_unheld_and_held:
  "(length (filter (requested trip seat_codes) db) = length seat_codes
      \<and> (\<forall>s\<in>set db. requested trip seat_codes s \<longrightarrow> status s \<noteq> BOOKED)
    \<longrightarrow>
      admin_generate_booking_code_and_book row_key t_sweep now generated trip seat_codes db =
        (Inr (result True ''BOOKED + booking code dibuat.''
                (Some (BookingData seat_codes generated))),
         map (\<lambda>s. if requested trip seat_codes s
                   then (sweep_row t_sweep s)\<lparr>status := BOOKED, booked_at := Some now,
                          booking_code := Some generated, hold_token := None,
                          hold_until := None\<rparr>
                   else sweep_row t_sweep s) db)
      \<and> confirm_booked_by_admin row_key t_sweep now trip seat_codes db =
        (Inr (result True ''Kursi berhasil dikonfirmasi BOOKED.''
                (Some (ConfirmData seat_codes))),
         map (\<lambda>s. if requested trip seat_codes s
                   then (sweep_row t_sweep s)\<lparr>status := BOOKED, booked_at := Some now,
                          hold_token := None, hold_until := None\<rparr>
                   else sweep_row t_sweep s) db))
   \<and> ((admin_generate_booking_code_and_book row_key t_sweep now generated trip seat_codes db
          = (Inr r, db')
        \<or> confirm_booked_by_admin row_key t_sweep now trip seat_codes db = (Inr r, db'))
       \<and> ok r
    \<longrightarrow>
      length (filter (requested trip seat_codes) db) = length seat_codes
      \<and> (\<forall>s\<in>set db. requested trip seat_codes s \<longrightarrow> status s \<noteq> BOOKED))"
proof (intro conjI impI; (elim conjE)?)
  assume c: "length (filter (requested trip seat_codes) db) = length seat_codes"
    and f: "\<forall>s\<in>set db. requested trip seat_codes s \<longrightarrow> status s \<noteq> BOOKED"
  show "admin_generate_booking_code_and_book row_key t_sweep now generated trip seat_codes db =
        (Inr (result True ''BOOKED + booking code dibuat.''
                (Some (BookingData seat_codes generated))),
         map (\<lambda>s. if requested trip seat_codes s
                   then (sweep_row t_sweep s)\<lparr>status := BOOKED, booked_at := Some now,
                          booking_code := Some generated, hold_token := None,
                          hold_until := None\<rparr>
                   else sweep_row t_sweep s) db)"
    using c f by (rule admin_book_success)
  show "confirm_booked_by_admin row_key t_sweep now trip seat_codes db =
        (Inr (result True ''Kursi berhasil dikonfirmasi BOOKED.''
                (Some (ConfirmData seat_codes))),
         map (\<lambda>s. if requested trip seat_codes s
                   then (sweep_row t_sweep s)\<lparr>status := BOOKED, booked_at := Some now,
                          hold_token := None, hold_until := None\<rparr>
                   else sweep_row t_sweep s) db)"
    using c f by (rule confirm_success)
next
  assume call: "admin_generate_booking_code_and_book row_key t_sweep now generated trip
                  seat_codes db = (Inr r, db')
                \<or> confirm_booked_by_admin row_key t_sweep now trip seat_codes db = (Inr r, db')"
    and "ok r"
  then have both: "length (filter (requested trip seat_codes) db) = length seat_codes
      \<and> (\<forall>s\<in>set db. requested trip seat_codes s \<longrightarrow> status s \<noteq> BOOKED)"
    using admin_book_ok_only_if confirm_ok_only_if by blast
  from both show "length (filter (requested trip seat_codes) db) = length seat_codes" ..
  from both show "\<forall>s\<in>set db. requested trip seat_codes s \<longrightarrow> status s \<noteq> BOOKED" ..
qed

theorem admin_finalize_books_unheld_and_held_witness:
  "admin_generate_booking_code_and_book id_seat 0 0 ''BK-1'' 1 [''A1'', ''A2'']
     [held_seat 1 1 ''A1'' ''tokenA'' 600, new_seat 2 1 ''A2'', new_seat 3 1 ''A3''] =
     (Inr (result True ''BOOKED + booking code dibuat.''
             (Some (BookingData [''A1'', ''A2''] ''BK-1''))),
      [(new_seat 1 1 ''A1'')\<lparr>status := BOOKED, booking_code := Some ''BK-1'',
          booked_at := Some 0\<rparr>,
       (new_seat 2 1 ''A2'')\<lparr>status := BOOKED, booking_code := Some ''BK-1'',
          booked_at := Some 0\<rparr>,
       new_seat 3 1 ''A3''])
   \<and> confirm_booked_by_admin id_seat 0 0 1 [''A1'', ''A2'']
     [held_seat 1 1 ''A1'' ''tokenA'' 600, new_seat 2 1 ''A2'', new_seat 3 1 ''A3''] =
     (Inr (result True ''Kursi berhasil dikonfirmasi BOOKED.''
             (Some (ConfirmData [''A1'', ''A2'']))),
      [(new_seat 1 1 ''A1'')\<lparr>status := BOOKED, booked_at := Some 0\<rparr>,
       (new_seat 2 1 ''A2'')\<lparr>status := BOOKED, booked_at := Some 0\<rparr>,
       new_seat 3 1 ''A3''])
   \<and> length (filter (requested 1 [''A1'', ''A2''])
        [held_seat 1 1 ''A1'' ''tokenA'' 600, new_seat 2 1 ''A2'', new_seat 3 1 ''A3''])
       = length [''A1'', ''A2'']"
proof -
  let ?db = "[held_seat 1 1 ''A1'' ''tokenA'' 600, new_seat 2 1 ''A2'', new_seat 3 1 ''A3'']"
  let ?db' = "[(new_seat 1 1 ''A1'')\<lparr>status := BOOKED, booked_at := Some 0\<rparr>,
       (new_seat 2 1 ''A2'')\<lparr>status := BOOKED, booked_at := Some 0\<rparr>,
       new_seat 3 1 ''A3'']"
  let ?r = "result True ''Kursi berhasil dikonfirmasi BOOKED.''
              (Some (ConfirmData [''A1'', ''A2'']))"
  note all = admin_finalize_books_unheld_and_held
  have pre: "length (filter (requested 1 [''A1'', ''A2'']) ?db) = length [''A1'', ''A2'']
             \<and> (\<forall>s\<in>set ?db. requested 1 [''A1'', ''A2''] s \<longrightarrow> status s \<noteq> BOOKED)"
    by (simp add: requested_def held_seat_def new_seat_def)
  note ok = all [where row_key = id_seat and t_sweep = 0 and now = 0
      and generated = "''BK-1''", THEN conjunct1, THEN mp, OF pre]
  have ev: "map (\<lambda>s. if requested 1 [''A1'', ''A2''] s
                   then (sweep_row 0 s)\<lparr>status := BOOKED, booked_at := Some 0,
                          hold_token := None, hold_until := None\<rparr>
                   else sweep_row 0 s) ?db = ?db'"
    by (simp add: requested_def sweep_row_def held_seat_def new_seat_def expired_def
        until_lt_def)
  have call: "confirm_booked_by_admin id_seat 0 0 1 [''A1'', ''A2''] ?db = (Inr ?r, ?db')"
    using ok [THEN conjunct2] by (simp only: ev)
  have okr: "ok ?r"
    by simp
  have needed: "length (filter (requested 1 [''A1'', ''A2'']) ?db) = length [''A1'', ''A2'']"
    by (rule all [where generated = "''BK-1''", THEN conjunct2, THEN mp,
          OF conjI [OF disjI2 [OF call] okr], THEN conjunct1])
  from ok needed show ?thesis
    by (simp add: requested_def sweep_row_def held_seat_def new_seat_def expired_def
        until_lt_def)
qed

text \<open>
  Claim C9 as stated fails: it is not only an already-BOOKED seat that makes the call
  fail. No seat of the table is BOOKED, A1 is under an unexpired hold and A2 is AVAILABLE;
  finalising A1 or A2 together with the absent code Z9 fails in both variants on the count
  check, and neither seat is booked.
\<close>

theorem admin_finalize_unbooked_counterexample:
  "admin_generate_booking_code_and_book id_seat 0 0 ''BK-1'' 1 [''A1'', ''Z9'']
     [held_seat 1 1 ''A1'' ''tokenA'' 600, new_seat 2 1 ''A2''] =
     (Inr (result False ''Ada kursi yang tidak ditemukan.'' None),
      [held_seat 1 1 ''A1'' ''tokenA'' 600, new_seat 2 1 ''A2''])
   \<and> confirm_booked_by_admin id_seat 0 0 1 [''A2'', ''Z9'']
     [held_seat 1 1 ''A1'' ''tokenA'' 600, new_seat 2 1 ''A2''] =
     (Inr (result False ''Ada kursi yang tidak ditemukan.'' None),
      [held_seat 1 1 ''A1'' ''tokenA'' 600, new_seat 2 1 ''A2''])
   \<and> status (held_seat 1 1 ''A1'' ''tokenA'' 600) = HOLD
   \<and> status (new_seat 2 1 ''A2'') = AVAILABLE"
  by (simp add: admin_generate_booking_code_and_book_def
      admin_generate_booking_code_and_book_body_def confirm_booked_by_admin_def
      confirm_booked_by_admin_body_def requested_def ex_defs)

lemma requested_length_le:
  assumes "distinct (map (\<lambda>s. (trip_id s, code s)) db)"
  shows "length (filter (requested trip codes) db) \<le> card (set codes)"
proof -
  let ?rows = "filter (requested trip codes) db"
  have "distinct (map (\<lambda>s. (trip_id s, code s)) ?rows)"
    using assms by (rule distinct_map_filter)
  moreover have "map (\<lambda>s. (trip_id s, code s)) ?rows = map (\<lambda>s. (trip, code s)) ?rows"
    by (rule map_cong) (auto simp: requested_def)
  ultimately have "distinct (map (\<lambda>s. (trip, code s)) ?rows)"
    by simp
  then have d: "distinct (map code ?rows)"
    by (auto simp: distinct_map inj_on_def)
  have "set (map code ?rows) \<subseteq> set codes"
    by (auto simp: requested_def)
  then have "card (set (map code ?rows)) \<le> card (set codes)"
    by (rule card_mono [OF finite_set])
  moreover have "card (set (map code ?rows)) = length ?rows"
    using distinct_card [OF d] by simp
  ultimately show ?thesis
    by simp
qed

lemma duplicate_card_less: "\<not> distinct xs \<Longrightarrow> card (set xs) < length xs"
  using card_length [of xs] card_distinct [of xs] by linarith

text \<open>
  Claim C10. Let the table have at most one seat per trip and code (the identity of a seat
  within its trip). When the requested list names a code more than once, either admin
  finalize variant fails with "Ada kursi yang tidak ditemukan.", whether or not every named
  seat exists: the loaded seats are at most as many as the distinct codes, and that number
  is compared with the length of the list.
\<close>

theorem admin_finalize_duplicate_codes:
  assumes "distinct (map (\<lambda>s. (trip_id s, code s)) db)"
    and "\<not> distinct seat_codes"
  shows "admin_generate_booking_code_and_book row_key t_sweep now generated trip seat_codes db =
     (Inr (result False ''Ada kursi yang tidak ditemukan.'' None), snd (expire_holds t_sweep db))
   \<and> confirm_booked_by_admin row_key t_sweep now trip seat_codes db =
     (Inr (result False ''Ada kursi yang tidak ditemukan.'' None), snd (expire_holds t_sweep db))
   \<and> length (filter (requested trip seat_codes) db) < length seat_codes"
proof -
  have lt: "length (filter (requested trip seat_codes) db) < length seat_codes"
    using requested_length_le [OF assms(1), of trip seat_codes] duplicate_card_less [OF assms(2)]
    by linarith
  then have "length (filter (requested trip seat_codes) db) \<noteq> length seat_codes"
    by simp
  then show ?thesis
    using lt by (simp add: admin_book_not_found confirm_not_found swept_def)
qed

theorem admin_finalize_duplicate_codes_witness:
  "admin_generate_booking_code_and_book id_seat 0 0 ''BK-1'' 1 [''A1'', ''A1'']
     [new_seat 1 1 ''A1'', new_seat 2 1 ''A2''] =
     (Inr (result False ''Ada kursi yang tidak ditemukan.'' None),
      [new_seat 1 1 ''A1'', new_seat 2 1 ''A2''])
   \<and> confirm_booked_by_admin id_seat 0 0 1 [''A1'', ''A1''] [new_seat 1 1 ''A1'', new_seat 2 1 ''A2''] =
     (Inr (result False ''Ada kursi yang tidak ditemukan.'' None),
      [new_seat 1 1 ''A1'', new_seat 2 1 ''A2''])"
proof -
  let ?db = "[new_seat 1 1 ''A1'', new_seat 2 1 ''A2'']"
  have u: "distinct (map (\<lambda>s. (trip_id s, code s)) ?db)"
    by (simp add: new_seat_def)
  have d: "\<not> distinct [''A1'', ''A1'']"
    by simp
  have s: "snd (expire_holds 0 ?db) = ?db"
    by (simp add: ex_defs)
  from admin_finalize_duplicate_codes [OF u d, where t_sweep = 0 and now = 0
      and generated = "''BK-1''" and trip = 1 and row_key = id_seat] s
  show ?thesis
    by simp
qed

subsection \<open>Claim transfer and contact\<close>

lemma qs_update_swept_rows:
  assumes "\<And>s. q (sweep_row t s) \<longleftrightarrow> \<not> expired t s \<and> q s"
  shows "qs_update q f (swept t db) =
         map (\<lambda>s. if expired t s then release_fields s else if q s then f s else s) db"
  by (simp add: qs_update_def swept_map assms) (simp add: sweep_row_def)

lemma filter_swept_empty:
  assumes "\<And>s. q (sweep_row t s) \<longleftrightarrow> \<not> expired t s \<and> q s"
  shows "filter q (swept t db) = [] \<longleftrightarrow> (\<forall>s\<in>set db. expired t s \<or> \<not> q s)"
  by (auto simp: swept_map filter_empty_conv assms)

lemma claim_match_sweep_row:
  "claim_match upper trip claim wa now (sweep_row t s) \<longleftrightarrow>
   \<not> expired t s \<and> claim_match upper trip claim wa now s"
  by (auto simp: sweep_row_def claim_match_def release_fields_def)

lemma active_hold_of_sweep_row:
  "active_hold_of trip token now (sweep_row t s) \<longleftrightarrow>
   \<not> expired t s \<and> active_hold_of trip token now s"
  by (auto simp: sweep_row_def active_hold_of_def release_fields_def)

text \<open>
  Claim C5, as amended. After a successful \<^verbatim>\<open>claim_hold_by_code\<close>, every stored row is
  determined by the row before the call: a stale hold has been released by the sweep; a
  row that matches the claim filter is the old row with \<^verbatim>\<open>hold_token\<close> rewritten to the
  new token and nothing else changed (status, deadline, contact and claim code are the
  old ones); every other row is unchanged. At least one row matches.
\<close>

theorem claim_hold_by_code_frame:
  "claim_hold_by_code upper t_sweep now trip claim new_hold_token wa db = (Inr r, db') \<Longrightarrow> ok r \<Longrightarrow>
   db' = map (\<lambda>s. if expired t_sweep s then release_fields s
                   else if claim_match upper trip claim wa now s
                        then s\<lparr>hold_token := Some new_hold_token\<rparr>
                        else s) db
   \<and> (\<exists>s\<in>set db. \<not> expired t_sweep s \<and> claim_match upper trip claim wa now s)"
proof -
  assume call: "claim_hold_by_code upper t_sweep now trip claim new_hold_token wa db = (Inr r, db')"
    and "ok r"
  let ?q = "claim_match upper trip claim wa now"
  from call have body: "claim_hold_by_code_body upper t_sweep now trip claim new_hold_token wa db
                        = (Inr r, db')"
    by (simp add: claim_hold_by_code_def atomic_Inr)
  have ne: "filter ?q (swept t_sweep db) \<noteq> []"
  proof
    assume "filter ?q (swept t_sweep db) = []"
    with body have "r = result False ''Claim code tidak valid atau sudah expired.'' None"
      by (simp add: claim_hold_by_code_body_def Let_def)
    with \<open>ok r\<close> show False by simp
  qed
  with body have "db' = qs_update ?q (\<lambda>s. s\<lparr>hold_token := Some new_hold_token\<rparr>)
                          (swept t_sweep db)"
    by (simp add: claim_hold_by_code_body_def Let_def)
  then have "db' = map (\<lambda>s. if expired t_sweep s then release_fields s
                   else if ?q s then s\<lparr>hold_token := Some new_hold_token\<rparr> else s) db"
    by (simp add: qs_update_swept_rows [OF claim_match_sweep_row])
  moreover have "\<exists>s\<in>set db. \<not> expired t_sweep s \<and> ?q s"
    using ne filter_swept_empty [of ?q t_sweep db, OF claim_match_sweep_row] by blast
  ultimately show ?thesis
    by simp
qed

theorem claim_hold_by_code_frame_witness:
  "claim_hold_by_code str_upper 100 100 1 '' abcd-efgh'' ''tokenB'' (Some ''08'') db_claim =
     (Inr (result True ''Hold berhasil di-claim.'' (Some (TransferData [''A1''] (Some 600)))),
      [(held_seat 1 1 ''A1'' ''tokenB'' 600)\<lparr>customer_name := Some ''Budi'',
          customer_wa := Some ''08'', claim_code := Some ''ABCD-EFGH''\<rparr>,
       new_seat 3 2 ''B1''])"
proof -
  let ?db' = "[(held_seat 1 1 ''A1'' ''tokenB'' 600)\<lparr>customer_name := Some ''Budi'',
          customer_wa := Some ''08'', claim_code := Some ''ABCD-EFGH''\<rparr>,
       new_seat 3 2 ''B1'']"
  let ?r = "result True ''Hold berhasil di-claim.'' (Some (TransferData [''A1''] (Some 600)))"
  have call: "claim_hold_by_code str_upper 100 100 1 '' abcd-efgh'' ''tokenB'' (Some ''08'') db_claim =
              (Inr ?r, ?db')"
    by (simp add: db_claim_def claim_hold_by_code_def claim_hold_by_code_body_def
        claim_match_def str_strip_def isspace_def str_upper_def upper_char_def ex_defs)
  have okr: "ok ?r"
    by simp
  from claim_hold_by_code_frame [OF call okr] call show ?thesis
    by simp
qed

text \<open>
  Claim C5 as stated fails: a successful claim of A1 in trip 1 leaves the seat B1 of trip
  2, which is not matched, released and stripped of its token, deadline, contact and claim
  code, because the call sweeps first and B1 was a stale hold.
\<close>

theorem claim_hold_by_code_frame_counterexample:
  "fst (claim_hold_by_code str_upper 100 100 1 ''ABCD-EFGH'' ''tokenB'' None db_claim) =
     Inr (result True ''Hold berhasil di-claim.'' (Some (TransferData [''A1''] (Some 600))))
   \<and> \<not> claim_match str_upper 1 ''ABCD-EFGH'' None 100 (db_claim ! 1)
   \<and> snd (claim_hold_by_code str_upper 100 100 1 ''ABCD-EFGH'' ''tokenB'' None db_claim) ! 1 =
       new_seat 3 2 ''B1''
   \<and> new_seat 3 2 ''B1'' \<noteq> db_claim ! 1"
  by (simp add: db_claim_def claim_hold_by_code_def claim_hold_by_code_body_def
      claim_match_def str_strip_def isspace_def str_upper_def upper_char_def ex_defs)

lemma cohort_carries_code:
  assumes "\<forall>s\<in>set db. claim_code s \<noteq> Some g"
  shows "filter (\<lambda>s. claim_code s = Some g)
           (map (\<lambda>s. if expired t s then release_fields s
                     else if q s
                          then s\<lparr>customer_name := a, customer_wa := b, claim_code := Some g\<rparr>
                          else s) db) =
         map (\<lambda>s. s\<lparr>customer_name := a, customer_wa := b, claim_code := Some g\<rparr>)
           (filter (\<lambda>s. \<not> expired t s \<and> q s) db)"
  using assms by (induction db) (auto simp: release_fields_def)

text \<open>
  Claim C8, as amended. The claim code \<open>generated\<close> is the one value the generator returns
  in the call. A successful \<^verbatim>\<open>attach_contact_and_generate_claim\<close> stores it, on every row of
  the trip that after the sweep is an active hold of the caller's token, together with the
  name and the contact handle stripped of surrounding white space, and changes nothing
  else on it; a stale hold has been released by the sweep, which clears its claim code;
  every other row is unchanged. At least one row is such an active hold. When the code is
  freshly generated, that is, no seat carried it before the call, the rows that carry it
  after the call are exactly those active holds. When the trip is active and no row is an
  active hold of the token, the call fails with "Tidak ada kursi hold aktif untuk token
  ini." and only the sweep is written.
\<close>

theorem attach_contact_cohort:
  "(attach_contact_and_generate_claim t_sweep now generated trips trip token name wa db
      = (Inr r, db') \<and> ok r \<longrightarrow>
      db' = map (\<lambda>s. if expired t_sweep s then release_fields s
                      else if active_hold_of trip token now s
                           then s\<lparr>customer_name := Some (str_strip name),
                                  customer_wa := Some (str_strip wa),
                                  claim_code := Some generated\<rparr>
                           else s) db
      \<and> (\<exists>s\<in>set db. \<not> expired t_sweep s \<and> active_hold_of trip token now s)
      \<and> ((\<forall>s\<in>set db. claim_code s \<noteq> Some generated) \<longrightarrow>
           filter (\<lambda>s. claim_code s = Some generated) db' =
           map (\<lambda>s. s\<lparr>customer_name := Some (str_strip name),
                         customer_wa := Some (str_strip wa),
                         claim_code := Some generated\<rparr>)
             (filter (\<lambda>s. \<not> expired t_sweep s \<and> active_hold_of trip token now s) db)))
   \<and> (get_row (filter (\<lambda>t. id_trip t = trip \<and> is_active t) trips) = Found t
      \<and> (\<forall>s\<in>set db. expired t_sweep s \<or> \<not> active_hold_of trip token now s) \<longrightarrow>
      attach_contact_and_generate_claim t_sweep now generated trips trip token name wa db
      = (Inr (result False ''Tidak ada kursi hold aktif untuk token ini.'' None),
         snd (expire_holds t_sweep db)))"
proof (intro conjI impI; elim conjE)
  let ?q = "active_hold_of trip token now"
  assume call: "attach_contact_and_generate_claim t_sweep now generated trips trip token
                  name wa db = (Inr r, db')"
    and "ok r"
  from call have body: "attach_contact_and_generate_claim_body t_sweep now generated trips
                          trip token name wa db = (Inr r, db')"
    by (simp add: attach_contact_and_generate_claim_def atomic_Inr)
  from body \<open>ok r\<close> obtain t' where
    found: "get_row (filter (\<lambda>t. id_trip t = trip \<and> is_active t) trips) = Found t'"
    by (cases "get_row (filter (\<lambda>t. id_trip t = trip \<and> is_active t) trips)")
      (auto simp: attach_contact_and_generate_claim_body_def Let_def)
  have ne: "filter ?q (swept t_sweep db) \<noteq> []"
  proof
    assume "filter ?q (swept t_sweep db) = []"
    with body found
    have "r = result False ''Tidak ada kursi hold aktif untuk token ini.'' None"
      by (simp add: attach_contact_and_generate_claim_body_def Let_def)
    with \<open>ok r\<close> show False by simp
  qed
  with body found
  have "db' = qs_update ?q (attach_fields name wa generated) (swept t_sweep db)"
    by (simp add: attach_contact_and_generate_claim_body_def Let_def)
  then show rows: "db' = map (\<lambda>s. if expired t_sweep s then release_fields s
                      else if ?q s
                           then s\<lparr>customer_name := Some (str_strip name),
                                  customer_wa := Some (str_strip wa),
                                  claim_code := Some generated\<rparr>
                           else s) db"
    by (simp add: qs_update_swept_rows [OF active_hold_of_sweep_row] attach_fields_def)
  show "filter (\<lambda>s. claim_code s = Some generated) db' =
           map (\<lambda>s. s\<lparr>customer_name := Some (str_strip name),
                         customer_wa := Some (str_strip wa),
                         claim_code := Some generated\<rparr>)
             (filter (\<lambda>s. \<not> expired t_sweep s \<and> ?q s) db)"
    if "\<forall>s\<in>set db. claim_code s \<noteq> Some generated"
    unfolding rows using that by (rule cohort_carries_code)
  show "\<exists>s\<in>set db. \<not> expired t_sweep s \<and> ?q s"
    using ne filter_swept_empty [of ?q t_sweep db, OF active_hold_of_sweep_row] by blast
next
  let ?q = "active_hold_of trip token now"
  assume found: "get_row (filter (\<lambda>t. id_trip t = trip \<and> is_active t) trips) = Found t"
    and none: "\<forall>s\<in>set db. expired t_sweep s \<or> \<not> ?q s"
  from none have "filter ?q (swept t_sweep db) = []"
    using filter_swept_empty [of ?q t_sweep db, OF active_hold_of_sweep_row] by blast
  with found show "attach_contact_and_generate_claim t_sweep now generated trips trip token
      name wa db = (Inr (result False ''Tidak ada kursi hold aktif untuk token ini.'' None),
         snd (expire_holds t_sweep db))"
    by (simp add: attach_contact_and_generate_claim_def atomic_def
        attach_contact_and_generate_claim_body_def Let_def swept_def)
qed

theorem attach_contact_cohort_witness:
  "attach_contact_and_generate_claim 0 0 ''JKLM-6789'' [trip1] 1 ''tokenA'' ''Budi'' ''08''
     [held_seat 1 1 ''A1'' ''tokenA'' 600, held_seat 2 1 ''A2'' ''tokenB'' 600] =
     (Inr (result True ''Kontak disimpan & claim code dibuat.''
             (Some (ClaimData ''JKLM-6789'' [''A1''] (Some 600) ''0811''))),
      [(held_seat 1 1 ''A1'' ''tokenA'' 600)\<lparr>customer_name := Some ''Budi'',
          customer_wa := Some ''08'', claim_code := Some ''JKLM-6789''\<rparr>,
       held_seat 2 1 ''A2'' ''tokenB'' 600])
   \<and> attach_contact_and_generate_claim 0 0 ''JKLM-6789'' [trip1] 1 ''tokenZ'' ''Budi'' ''08''
     [held_seat 1 1 ''A1'' ''tokenA'' 600, held_seat 2 1 ''A2'' ''tokenB'' 600] =
     (Inr (result False ''Tidak ada kursi hold aktif untuk token ini.'' None),
      [held_seat 1 1 ''A1'' ''tokenA'' 600, held_seat 2 1 ''A2'' ''tokenB'' 600])
   \<and> filter (\<lambda>s. claim_code s = Some ''JKLM-6789'')
       [(held_seat 1 1 ''A1'' ''tokenA'' 600)\<lparr>customer_name := Some ''Budi'',
           customer_wa := Some ''08'', claim_code := Some ''JKLM-6789''\<rparr>,
        held_seat 2 1 ''A2'' ''tokenB'' 600] =
     [(held_seat 1 1 ''A1'' ''tokenA'' 600)\<lparr>customer_name := Some ''Budi'',
         customer_wa := Some ''08'', claim_code := Some ''JKLM-6789''\<rparr>]"
proof -
  let ?db = "[held_seat 1 1 ''A1'' ''tokenA'' 600, held_seat 2 1 ''A2'' ''tokenB'' 600]"
  let ?db' = "[(held_seat 1 1 ''A1'' ''tokenA'' 600)\<lparr>customer_name := Some ''Budi'',
          customer_wa := Some ''08'', claim_code := Some ''JKLM-6789''\<rparr>,
       held_seat 2 1 ''A2'' ''tokenB'' 600]"
  let ?r = "result True ''Kontak disimpan & claim code dibuat.''
             (Some (ClaimData ''JKLM-6789'' [''A1''] (Some 600) ''0811''))"
  note both = attach_contact_cohort
  have call: "attach_contact_and_generate_claim 0 0 ''JKLM-6789'' [trip1] 1 ''tokenA''
                ''Budi'' ''08'' ?db = (Inr ?r, ?db')"
    by (simp add: attach_contact_and_generate_claim_def
        attach_contact_and_generate_claim_body_def active_hold_of_def attach_fields_def
        trip1_def admin_wa_or_empty_def str_strip_def isspace_def ex_defs)
  have okr: "ok ?r"
    by simp
  have found: "get_row (filter (\<lambda>t. id_trip t = 1 \<and> is_active t) [trip1]) = Found trip1"
    by (simp add: trip1_def)
  have none: "\<forall>s\<in>set ?db. expired 0 s \<or> \<not> active_hold_of 1 ''tokenZ'' 0 s"
    by (simp add: active_hold_of_def held_seat_def new_seat_def)
  have sw: "snd (expire_holds 0 ?db) = ?db"
    by (simp add: ex_defs)
  have fresh: "\<forall>s\<in>set ?db. claim_code s \<noteq> Some ''JKLM-6789''"
    by (simp add: held_seat_def new_seat_def)
  have cohort: "filter (\<lambda>s. \<not> expired 0 s \<and> active_hold_of 1 ''tokenA'' 0 s) ?db =
                [held_seat 1 1 ''A1'' ''tokenA'' 600]"
    by (simp add: active_hold_of_def ex_defs)
  have strip: "str_strip ''Budi'' = ''Budi''" "str_strip ''08'' = ''08''"
    by (simp_all add: str_strip_def isspace_def)
  note success = both [THEN conjunct1, THEN mp, OF conjI [OF call okr]]
  have carried: "filter (\<lambda>s. claim_code s = Some ''JKLM-6789'') ?db' =
     [(held_seat 1 1 ''A1'' ''tokenA'' 600)\<lparr>customer_name := Some ''Budi'',
         customer_wa := Some ''08'', claim_code := Some ''JKLM-6789''\<rparr>]"
    using success [THEN conjunct2, THEN conjunct2, THEN mp, OF fresh]
    by (simp only: cohort strip list.map)
  note failure = both [where generated = "''JKLM-6789''" and name = "''Budi''"
      and wa = "''08''", THEN conjunct2, THEN mp, OF conjI [OF found none]]
  from call failure [unfolded sw] carried show ?thesis
    by (intro conjI)
qed

text \<open>
  Claim C8 as stated fails on each of its parts. A successful call with the name
  \<open>'' Budi ''\<close> stores \<open>''Budi''\<close>, not the given name, and clears the claim code of B1, a
  seat of another trip and session that was a stale hold. A call by a session with no
  active hold fails with NoActiveHold and has still rewritten B1. With no active trip
  the failure is "Trip tidak ditemukan.", not NoActiveHold.
\<close>

theorem attach_contact_cohort_counterexample:
  "snd (attach_contact_and_generate_claim 100 100 ''JKLM-6789'' [trip1] 1 ''tokenA''
          '' Budi '' ''08 '' db_claim) =
     [(held_seat 1 1 ''A1'' ''tokenA'' 600)\<lparr>customer_name := Some ''Budi'',
         customer_wa := Some ''08'', claim_code := Some ''JKLM-6789''\<rparr>,
      new_seat 3 2 ''B1'']
   \<and> claim_code (db_claim ! 1) = Some ''WXYZ-2345''
   \<and> claim_code (new_seat 3 2 ''B1'') = None
   \<and> attach_contact_and_generate_claim 100 100 ''JKLM-6789'' [trip1] 1 ''tokenZ''
        ''Budi'' ''08'' db_claim =
     (Inr (result False ''Tidak ada kursi hold aktif untuk token ini.'' None),
      [db_claim ! 0, new_seat 3 2 ''B1''])
   \<and> fst (attach_contact_and_generate_claim 100 100 ''JKLM-6789'' [] 1 ''tokenZ''
        ''Budi'' ''08'' db_claim) = Inr (result False ''Trip tidak ditemukan.'' None)"
  by (simp add: db_claim_def attach_contact_and_generate_claim_def
      attach_contact_and_generate_claim_body_def active_hold_of_def attach_fields_def
      trip1_def admin_wa_or_empty_def str_strip_def isspace_def ex_defs)

subsection \<open>The seat map\<close>

lemma public_eq_sweep_row:
  "public_eq s s' \<Longrightarrow> public_eq (sweep_row t s) (sweep_row t s')"
  by (auto simp: public_eq_def sweep_row_def release_fields_def expired_def)

lemma public_eq_swept:
  "list_all2 public_eq db1 db2 \<Longrightarrow> list_all2 public_eq (swept t db1) (swept t db2)"
  by (simp add: swept_map list_all2_map1 list_all2_map2)
    (erule list_all2_mono, rule public_eq_sweep_row)

lemma public_eq_filter_trip:
  "list_all2 public_eq xs ys \<Longrightarrow>
   list_all2 public_eq (filter (\<lambda>s. trip_id s = k) xs) (filter (\<lambda>s. trip_id s = k) ys)"
  by (induction rule: list_all2_induct) (auto simp: public_eq_def)

lemma public_eq_code: "public_eq s s' \<Longrightarrow> code s = code s'"
  by (simp add: public_eq_def)

lemma public_eq_insort:
  "list_all2 public_eq xs ys \<Longrightarrow> public_eq x y \<Longrightarrow>
   list_all2 public_eq (insort_key code x xs) (insort_key code y ys)"
proof (induction rule: list_all2_induct)
  case Nil
  then show ?case by simp
next
  case (Cons a xs b ys)
  from Cons.hyps(1) Cons.prems have "code a = code b" "code x = code y"
    by (simp_all add: public_eq_code)
  with Cons show ?case
    by simp
qed

lemma public_eq_sort:
  "list_all2 public_eq xs ys \<Longrightarrow>
   list_all2 public_eq (sort_key code xs) (sort_key code ys)"
  by (induction rule: list_all2_induct) (simp_all add: public_eq_insort)

lemma public_eq_entries:
  "list_all2 public_eq xs ys \<Longrightarrow> map seat_entry xs = map seat_entry ys"
  by (induction rule: list_all2_induct) (auto simp: public_eq_def seat_entry_def)

text \<open>
  Claim C7, as amended. The seat map shows, per seat, the fields \<^verbatim>\<open>id\<close>, \<^verbatim>\<open>code\<close>,
  \<^verbatim>\<open>status\<close> and \<^verbatim>\<open>hold_until\<close> (the type \<open>SeatEntry\<close>), and its result does not depend on
  \<^verbatim>\<open>hold_token\<close>, \<^verbatim>\<open>claim_code\<close>, \<^verbatim>\<open>booking_code\<close>, \<^verbatim>\<open>customer_name\<close> or \<^verbatim>\<open>customer_wa\<close>: two
  tables whose rows agree, position by position, on identity, trip, code, status and
  deadline give the same result for every trip list, trip and sweep time.
\<close>

theorem get_seat_map_private_fields:
  "list_all2 public_eq db1 db2 \<Longrightarrow>
   fst (get_seat_map t_sweep trips trip db1) = fst (get_seat_map t_sweep trips trip db2)"
proof -
  assume eq: "list_all2 public_eq db1 db2"
  have "map seat_entry (sort_key code (filter (\<lambda>s. trip_id s = k) (swept t_sweep db1))) =
        map seat_entry (sort_key code (filter (\<lambda>s. trip_id s = k) (swept t_sweep db2)))" for k
    by (intro public_eq_entries public_eq_sort public_eq_filter_trip public_eq_swept eq)
  then show ?thesis
    by (simp add: get_seat_map_def Let_def split: sum.splits option.splits)
qed

theorem get_seat_map_private_fields_witness:
  "fst (get_seat_map 100 [trip1] 1 db_claim) =
   fst (get_seat_map 100 [trip1] 1
          [held_seat 1 1 ''A1'' ''tokenZ'' 600,
           (held_seat 3 2 ''B1'' ''tokenY'' 50)\<lparr>booking_code := Some ''BK-1''\<rparr>])"
proof -
  have "list_all2 public_eq db_claim
          [held_seat 1 1 ''A1'' ''tokenZ'' 600,
           (held_seat 3 2 ''B1'' ''tokenY'' 50)\<lparr>booking_code := Some ''BK-1''\<rparr>]"
    by (simp add: db_claim_def public_eq_def held_seat_def new_seat_def)
  then show ?thesis
    by (rule get_seat_map_private_fields)
qed

text \<open>
  Claim C7 as stated fails in its first part: the per-seat entry also carries the seat's
  \<^verbatim>\<open>id\<close>. Two tables that differ in nothing but that identity give different seat maps.
\<close>

theorem get_seat_map_fields_counterexample:
  "fst (get_seat_map 0 [trip1] 1 [new_seat 7 1 ''A1'']) =
     Inr (result True ''OK''
            (Some (SeatMapData (trip_info trip1)
                     [\<lparr>e_id = 7, e_code = ''A1'', e_status = AVAILABLE, e_hold_until = None\<rparr>])))
   \<and> fst (get_seat_map 0 [trip1] 1 [new_seat 8 1 ''A1'']) =
     Inr (result True ''OK''
            (Some (SeatMapData (trip_info trip1)
                     [\<lparr>e_id = 8, e_code = ''A1'', e_status = AVAILABLE, e_hold_until = None\<rparr>])))
   \<and> fst (get_seat_map 0 [trip1] 1 [new_seat 7 1 ''A1'']) \<noteq>
       fst (get_seat_map 0 [trip1] 1 [new_seat 8 1 ''A1''])"
  by (simp add: get_seat_map_def get_trip_with_seats_def seat_entry_def trip1_def ex_defs)

end
